theory Spec2Isabelle
  imports Main "HOL-Library.AList"
begin

section \<open>Shared vocabulary of the server\<close>

text \<open>
  The server keeps every match in one of four JavaScript \<open>Map\<close>s. A \<open>Map\<close> iterates in
  insertion order, \<open>set\<close> on a present key overwrites in place and on a new key appends,
  \<open>delete\<close> removes the entry: an association list with \<open>AList.update\<close>,
  \<open>AList.delete\<close> and \<open>map_of\<close>.
\<close>

type_synonym ('k, 'v) jsmap = "('k \<times> 'v) list"

text \<open>The five string literals the code ever stores in \<open>game.status\<close>.\<close>

datatype status = Waiting | Playing | Finished | Draw | Abandoned

text \<open>Exceptions the handlers can raise; none of them is caught by the handlers.\<close>

datatype js_error = TypeError | URIError

text \<open>
  What a request handler answers: \<open>res.json({success: true, ...})\<close>,
  \<open>res.status(code).json({success: false, message})\<close>, or an exception that leaves
  the handler (Express answers 500 through its error middleware).
\<close>

datatype response = Success | Failure nat string | Uncaught js_error

text \<open>
  One \<open>io.to(room).emit(event, {gameId, game, ...})\<close>. The payload's \<open>game\<close> is the
  match object as it stands when the emit runs; the other payload fields echo the request.
\<close>

record 'g emitted =
  room :: string
  event :: string
  gameId :: string
  game :: 'g

text \<open>\<open>req.session.user\<close>, and what the session bridge copies onto a socket.\<close>

record user =
  username :: string
  role :: string

text \<open>
  The part of a player object that every variant but chess has. No object literal of the
  source has a \<open>socketId\<close> property, so reading it gives \<open>undefined\<close>: \<open>None\<close>.
\<close>

record player =
  name :: string
  socketId :: "string option"

text \<open>The fields every match object has; \<open>'p\<close> is the variant's player entry.\<close>

record 'p match =
  game_id :: string
  players :: "'p list"
  status :: status
  winner :: "string option"
  createdAt :: nat

text \<open>\<open>xs[i]\<close> for a JavaScript number \<open>i\<close> that is an integer: \<open>undefined\<close> out of range.\<close>

definition js_index :: "'a list \<Rightarrow> int \<Rightarrow> 'a option" where
  "js_index xs i = (if 0 \<le> i \<and> i < int (length xs) then Some (xs ! nat i) else None)"

text \<open>\<open>a % b\<close> on integers: the remainder takes the sign of the dividend.\<close>

definition js_rem :: "int \<Rightarrow> int \<Rightarrow> int" where
  "js_rem a b = sgn a * (\<bar>a\<bar> mod \<bar>b\<bar>)"

text \<open>\<open>n.toString()\<close> of a non-negative integer.\<close>

definition digit :: "nat \<Rightarrow> char" where
  "digit n = ''0123456789'' ! n"

function toString :: "nat \<Rightarrow> string" where
  "toString n = (if n < 10 then [digit n] else toString (n div 10) @ [digit (n mod 10)])"
  by pat_completeness auto
termination
  by (relation "measure (\<lambda>n. n)") auto

declare toString.simps [simp del]

section \<open>The card game\<close>

record card =
  color :: string
  cvalue :: string
  ctype :: string

text \<open>
  A hand is filled with \<open>hand.push(game.deck.pop())\<close>; \<open>pop\<close> on an empty array gives
  \<open>undefined\<close>, which the array then holds: \<open>None\<close>.
\<close>

record uno_player = player +
  hand :: "card option list"
  saidUNO :: bool

record uno_game = "uno_player match" +
  u_maxPlayers :: nat
  deck :: "card list"
  discardPile :: "card list"
  u_currentPlayerIndex :: int
  currentColor :: string
  currentNumber :: string
  direction :: int

definition colors :: "string list" where
  "colors = [''red'', ''blue'', ''green'', ''yellow'']"

definition specials :: "string list" where
  "specials = [''skip'', ''reverse'', ''draw2'']"

definition mk_card :: "string \<Rightarrow> string \<Rightarrow> string \<Rightarrow> card" where
  "mk_card c v t = \<lparr>color = c, cvalue = v, ctype = t\<rparr>"

definition createUNODeck :: "card list" where
  "createUNODeck =
     concat (map (\<lambda>c. mk_card c ''0'' ''number'' #
                 concat (map (\<lambda>i. [mk_card c (toString i) ''number'',
                                     mk_card c (toString i) ''number'']) [1..<10]))
             colors)
     @ concat (map (\<lambda>c. concat (map (\<lambda>s. [mk_card c s ''special'', mk_card c s ''special''])
                                    specials))
               colors)
     @ concat (map (\<lambda>i. [mk_card ''wild'' ''wild'' ''wild'', mk_card ''wild'' ''wild4'' ''wild''])
               [0..<4])"

text \<open>
  \<open>shuffleArray\<close>: for \<open>i\<close> from \<open>length - 1\<close> down to 1, swap positions \<open>i\<close> and
  \<open>j = floor(Math.random() * (i + 1))\<close>. The random draws are a parameter: \<open>rnd i\<close>
  stands for the draw of round \<open>i\<close>, and \<open>rnd i mod (i + 1)\<close> ranges over exactly the
  values \<open>0..i\<close> that \<open>j\<close> can take.
\<close>

definition swap :: "nat \<Rightarrow> nat \<Rightarrow> 'a list \<Rightarrow> 'a list" where
  "swap i j xs = xs[i := xs ! j, j := xs ! i]"

fun shuffle_from :: "(nat \<Rightarrow> nat) \<Rightarrow> nat \<Rightarrow> 'a list \<Rightarrow> 'a list" where
  "shuffle_from rnd 0 xs = xs"
| "shuffle_from rnd (Suc i) xs = shuffle_from rnd i (swap (Suc i) (rnd (Suc i) mod (Suc i + 1)) xs)"

definition shuffleArray :: "(nat \<Rightarrow> nat) \<Rightarrow> 'a list \<Rightarrow> 'a list" where
  "shuffleArray rnd xs = shuffle_from rnd (length xs - 1) xs"

text \<open>\<open>array.pop()\<close>: the last element, or \<open>undefined\<close>; the array loses it.\<close>

definition pop :: "'a list \<Rightarrow> 'a option \<times> 'a list" where
  "pop xs = (if xs = [] then (None, []) else (Some (last xs), butlast xs))"

text \<open>\<open>for (let i = 0; i < n; i++) hand.push(game.deck.pop())\<close> of the deal.\<close>

fun deal_hand :: "nat \<Rightarrow> card list \<Rightarrow> card option list \<Rightarrow> card list \<times> card option list" where
  "deal_hand 0 d h = (d, h)"
| "deal_hand (Suc n) d h = deal_hand n (snd (pop d)) (h @ [fst (pop d)])"

fun deal :: "uno_player list \<Rightarrow> card list \<Rightarrow> uno_player list \<times> card list" where
  "deal [] d = ([], d)"
| "deal (p # ps) d =
     (let (d1, h) = deal_hand 7 d [];
          (ps', d2) = deal ps d1
      in (p\<lparr>hand := h\<rparr> # ps', d2))"

text \<open>
  \<open>do { firstCard = game.deck.pop(); } while (firstCard.type === 'wild')\<close>: the first
  card from the top that is not wild and the deck left under it; the wild cards popped on
  the way are held by nothing afterwards. On an exhausted deck \<open>firstCard\<close> is
  \<open>undefined\<close> and \<open>firstCard.type\<close> raises: \<open>None\<close>.
\<close>

function firstCard :: "card list \<Rightarrow> (card \<times> card list) option" where
  "firstCard d =
     (if d = [] then None
      else if ctype (last d) = ''wild'' then firstCard (butlast d)
      else Some (last d, butlast d))"
  by pat_completeness auto
termination
  by (relation "measure length") auto

declare firstCard.simps [simp del]

text \<open>A call that returns with the object as it left it, or raises with it as it stood.\<close>

datatype 'a outcome = Returned 'a | Threw js_error 'a

definition initializeUNOGame :: "(nat \<Rightarrow> nat) \<Rightarrow> uno_game \<Rightarrow> uno_game outcome" where
  "initializeUNOGame rnd g =
     (let d0 = shuffleArray rnd createUNODeck;
          (ps, d1) = deal (players g) d0
      in case firstCard d1 of
           None \<Rightarrow> Threw TypeError (g\<lparr>players := ps, deck := []\<rparr>)
         | Some (c, d2) \<Rightarrow>
             Returned (g\<lparr>players := ps, deck := d2, discardPile := [c],
                         u_currentPlayerIndex := 0, currentColor := color c,
                         currentNumber := cvalue c, direction := 1\<rparr>))"

definition canPlayUNOCard :: "card \<Rightarrow> string \<Rightarrow> string \<Rightarrow> bool" where
  "canPlayUNOCard c curColor curNumber =
     (if ctype c = ''wild'' then True else color c = curColor \<or> cvalue c = curNumber)"

text \<open>\<open>(i + game.direction + game.players.length) % game.players.length\<close>.\<close>

definition step_index :: "uno_game \<Rightarrow> int \<Rightarrow> int" where
  "step_index g i = js_rem (i + direction g + int (length (players g))) (int (length (players g)))"

text \<open>
  \<open>for (let i = 0; i < n && game.deck.length > 0; i++)
     game.players[nextPlayerIndex].hand.push(game.deck.pop())\<close>.
  \<open>game.players[k]\<close> out of range is \<open>undefined\<close> and \<open>.hand\<close> on it raises.
\<close>

fun forced_draw :: "nat \<Rightarrow> int \<Rightarrow> uno_game \<Rightarrow> uno_game outcome" where
  "forced_draw 0 k g = Returned g"
| "forced_draw (Suc n) k g =
     (if deck g = [] then Returned g
      else case js_index (players g) k of
             None \<Rightarrow> Threw TypeError g
           | Some p \<Rightarrow>
               forced_draw n k
                 (g\<lparr>players := (players g)[nat k := p\<lparr>hand := hand p @ [fst (pop (deck g))]\<rparr>],
                    deck := snd (pop (deck g))\<rparr>))"

definition processUNOCardEffect :: "uno_game \<Rightarrow> card \<Rightarrow> uno_game outcome" where
  "processUNOCardEffect g c =
     (let nextPlayerIndex = step_index g (u_currentPlayerIndex g) in
      if cvalue c = ''skip'' then
        Returned (g\<lparr>u_currentPlayerIndex := step_index g nextPlayerIndex\<rparr>)
      else if cvalue c = ''reverse'' then
        (let g1 = g\<lparr>direction := direction g * (-1)\<rparr> in
         if length (players g1) = 2
         then Returned (g1\<lparr>u_currentPlayerIndex := step_index g1 (u_currentPlayerIndex g1)\<rparr>)
         else Returned g1)
      else if cvalue c = ''draw2'' then
        (case forced_draw 2 nextPlayerIndex g of
           Threw e g1 \<Rightarrow> Threw e g1
         | Returned g1 \<Rightarrow> Returned (g1\<lparr>u_currentPlayerIndex := step_index g1 nextPlayerIndex\<rparr>))
      else if cvalue c = ''wild4'' then
        (case forced_draw 4 nextPlayerIndex g of
           Threw e g1 \<Rightarrow> Threw e g1
         | Returned g1 \<Rightarrow> Returned (g1\<lparr>u_currentPlayerIndex := step_index g1 nextPlayerIndex\<rparr>))
      else Returned g)"

text \<open>
  \<open>reshuffleUNODeck\<close>: nothing with at most one discarded card; otherwise the top card
  stays as the whole discard pile and the rest, shuffled, becomes the deck.
\<close>

definition reshuffleUNODeck :: "(nat \<Rightarrow> nat) \<Rightarrow> uno_game \<Rightarrow> uno_game" where
  "reshuffleUNODeck rnd g =
     (if length (discardPile g) \<le> 1 then g
      else g\<lparr>deck := shuffleArray rnd (butlast (discardPile g)),
             discardPile := [last (discardPile g)]\<rparr>)"

text \<open>
  A request as the game endpoints read it: \<open>req.session.user\<close> (present, or
  \<open>requireAuth\<close> has answered 401 before the handler runs) and the fields of the body.
\<close>

definition gaming_access_required :: response where
  "gaming_access_required = Failure 403 ''Gaming access required''"

definition game_not_found :: response where
  "game_not_found = Failure 404 ''Game not found''"

definition not_your_turn :: response where
  "not_your_turn = Failure 400 ''Not your turn''"

definition emit_gaming :: "string \<Rightarrow> string \<Rightarrow> 'g \<Rightarrow> 'g emitted" where
  "emit_gaming ev gid g = \<lparr>room = ''gaming-room'', event = ev, gameId = gid, game = g\<rparr>"

definition uno_create :: "(string, uno_game) jsmap \<Rightarrow> user \<Rightarrow> nat \<Rightarrow>
    response \<times> (string, uno_game) jsmap" where
  "uno_create games u now =
     (if role u \<noteq> ''gamer'' then (gaming_access_required, games)
      else
        let gid = ''uno_'' @ toString now;
            newGame = \<lparr>game_id = gid,
                       players = [\<lparr>name = username u, socketId = None, hand = [], saidUNO = False\<rparr>],
                       status = Waiting, winner = None, createdAt = now,
                       u_maxPlayers = 4, deck = [], discardPile = [],
                       u_currentPlayerIndex = 0, currentColor = '''', currentNumber = '''',
                       direction = 1\<rparr>
        in (Success, AList.update gid newGame games))"

definition uno_join :: "(nat \<Rightarrow> nat) \<Rightarrow> (string, uno_game) jsmap \<Rightarrow> user \<Rightarrow> string \<Rightarrow>
    response \<times> (string, uno_game) jsmap \<times> uno_game emitted list" where
  "uno_join rnd games u gid =
     (if role u \<noteq> ''gamer'' then (gaming_access_required, games, [])
      else case map_of games gid of
        None \<Rightarrow> (game_not_found, games, [])
      | Some g \<Rightarrow>
          if length (players g) \<ge> u_maxPlayers g then (Failure 400 ''Game is full'', games, [])
          else if \<exists>p \<in> set (players g). name p = username u
          then (Failure 400 ''Already in this game'', games, [])
          else
            let g1 = g\<lparr>players := players g @
                         [\<lparr>name = username u, socketId = None, hand = [], saidUNO = False\<rparr>]\<rparr>
            in if length (players g1) \<ge> 2
               then (case initializeUNOGame rnd (g1\<lparr>status := Playing\<rparr>) of
                       Threw e g2 \<Rightarrow> (Uncaught e, AList.update gid g2 games, [])
                     | Returned g2 \<Rightarrow>
                         (Success, AList.update gid g2 games, [emit_gaming ''uno-game-updated'' gid g2]))
               else (Success, AList.update gid g1 games, [emit_gaming ''uno-game-updated'' gid g1]))"

text \<open>\<open>hand.splice(i, 1)\<close> for an index inside the hand.\<close>

definition splice1 :: "nat \<Rightarrow> 'a list \<Rightarrow> 'a list" where
  "splice1 i xs = take i xs @ drop (Suc i) xs"

definition uno_play_card :: "(string, uno_game) jsmap \<Rightarrow> user \<Rightarrow> string \<Rightarrow> int \<Rightarrow> string option \<Rightarrow>
    response \<times> (string, uno_game) jsmap \<times> uno_game emitted list" where
  "uno_play_card games u gid cardIndex chosenColor =
     (if role u \<noteq> ''gamer'' then (gaming_access_required, games, [])
      else case map_of games gid of
        None \<Rightarrow> (game_not_found, games, [])
      | Some g \<Rightarrow>
         (case js_index (players g) (u_currentPlayerIndex g) of
            None \<Rightarrow> (Uncaught TypeError, games, [])
          | Some currentPlayer \<Rightarrow>
              if name currentPlayer \<noteq> username u then (not_your_turn, games, [])
              else if cardIndex \<ge> int (length (hand currentPlayer))
              then (Failure 400 ''Invalid card index'', games, [])
              else case Option.bind (js_index (hand currentPlayer) cardIndex) (\<lambda>x. x) of
                None \<Rightarrow> (Uncaught TypeError, games, [])
              | Some c \<Rightarrow>
                  if \<not> canPlayUNOCard c (currentColor g) (currentNumber g)
                  then (Failure 400 ''Cannot play this card'', games, [])
                  else
                    let k = nat (u_currentPlayerIndex g);
                        g1 = g\<lparr>players := (players g)
                                  [k := currentPlayer\<lparr>hand := splice1 (nat cardIndex) (hand currentPlayer)\<rparr>],
                               discardPile := discardPile g @ [c]\<rparr>;
                        g2 = g1\<lparr>currentColor :=
                                  (if ctype c = ''wild''
                                   then (case chosenColor of None \<Rightarrow> ''red''
                                         | Some s \<Rightarrow> if s = [] then ''red'' else s)
                                   else color c),
                                currentNumber := cvalue c\<rparr>
                    in case processUNOCardEffect g2 c of
                         Threw e g3 \<Rightarrow> (Uncaught e, AList.update gid g3 games, [])
                       | Returned g3 \<Rightarrow>
                           let g4 = (if length (hand (players g3 ! k)) = 0
                                     then g3\<lparr>status := Finished, winner := Some (name currentPlayer)\<rparr>
                                     else g3\<lparr>u_currentPlayerIndex :=
                                               step_index g3 (u_currentPlayerIndex g3)\<rparr>)
                           in (Success, AList.update gid g4 games,
                               [emit_gaming ''uno-card-played'' gid g4])))"

definition uno_draw_card :: "(nat \<Rightarrow> nat) \<Rightarrow> (string, uno_game) jsmap \<Rightarrow> user \<Rightarrow> string \<Rightarrow>
    response \<times> (string, uno_game) jsmap \<times> uno_game emitted list" where
  "uno_draw_card rnd games u gid =
     (if role u \<noteq> ''gamer'' then (gaming_access_required, games, [])
      else case map_of games gid of
        None \<Rightarrow> (game_not_found, games, [])
      | Some g \<Rightarrow>
         (case js_index (players g) (u_currentPlayerIndex g) of
            None \<Rightarrow> (Uncaught TypeError, games, [])
          | Some currentPlayer \<Rightarrow>
              if name currentPlayer \<noteq> username u then (not_your_turn, games, [])
              else
                let g1 = (if length (deck g) = 0 then reshuffleUNODeck rnd g else g);
                    k = nat (u_currentPlayerIndex g);
                    g2 = (if length (deck g1) > 0
                          then (let g' = g1\<lparr>players := (players g1)
                                              [k := currentPlayer\<lparr>hand := hand currentPlayer @ [fst (pop (deck g1))]\<rparr>],
                                            deck := snd (pop (deck g1))\<rparr>
                                in g'\<lparr>u_currentPlayerIndex := step_index g' (u_currentPlayerIndex g')\<rparr>)
                          else g1)
                in (Success, AList.update gid g2 games, [emit_gaming ''uno-card-drawn'' gid g2])))"

text \<open>The quantity the card-conservation statements are about.\<close>

definition cards_in_play :: "uno_game \<Rightarrow> nat" where
  "cards_in_play g = length (deck g) + length (discardPile g) + sum_list (map (\<lambda>p. length (hand p)) (players g))"

section \<open>Chess\<close>

record move_entry =
  mv_from :: string
  mv_to :: string
  mv_player :: string
  mv_timestamp :: nat

text \<open>A cell of the board is a one-letter piece code or \<open>null\<close> (\<open>None\<close>).\<close>

record chess_game = "string match" +
  c_board :: "char option list list"
  turn :: string
  moves :: "move_entry list"

definition initializeChessBoard :: "char option list list" where
  "initializeChessBoard =
     [map Some ''rnbqkbnr'', map Some ''pppppppp'',
      replicate 8 None, replicate 8 None, replicate 8 None, replicate 8 None,
      map Some ''PPPPPPPP'', map Some ''RNBQKBNR'']"

text \<open>
  \<open>parseInt(s[1])\<close>: the digit at index 1, or \<open>NaN\<close> (\<open>None\<close>) when there is no
  character there or it is not a decimal digit.
\<close>

definition parseInt_at1 :: "string \<Rightarrow> int option" where
  "parseInt_at1 s =
     (case js_index s 1 of
        None \<Rightarrow> None
      | Some c \<Rightarrow> if c \<in> set ''0123456789'' then Some (of_char c - 48) else None)"

text \<open>\<open>s.charCodeAt(0) - 97\<close>: \<open>NaN\<close> on the empty string.\<close>

definition col_of :: "string \<Rightarrow> int option" where
  "col_of s = (case s of [] \<Rightarrow> None | c # _ \<Rightarrow> Some (of_char c - 97))"

text \<open>\<open>v < 0 || v > 7\<close>: both comparisons are false on \<open>NaN\<close>.\<close>

definition outside :: "int option \<Rightarrow> bool" where
  "outside v = (case v of None \<Rightarrow> False | Some x \<Rightarrow> x < 0 \<or> x > 7)"

text \<open>
  \<open>piece.toUpperCase()\<close> on the letters a board holds (the twelve ASCII piece codes of
  \<open>initializeChessBoard\<close>, which \<open>makeMove\<close> only copies).
\<close>

definition toUpperCase :: "char \<Rightarrow> char" where
  "toUpperCase c =
     (case map_of (zip ''abcdefghijklmnopqrstuvwxyz'' ''ABCDEFGHIJKLMNOPQRSTUVWXYZ'') c of
        Some C \<Rightarrow> C
      | None \<Rightarrow> c)"

text \<open>
  \<open>isValidMove\<close>. \<open>board[7 - fromRow]\<close> with \<open>fromRow = NaN\<close> is \<open>undefined\<close>, and
  indexing it raises; a missing or \<open>null\<close> cell makes \<open>!piece\<close> true.
\<close>

definition isValidMove :: "char option list list \<Rightarrow> string \<Rightarrow> string \<Rightarrow> string \<Rightarrow> js_error + bool" where
  "isValidMove board from_sq to_sq playerColor =
     (let fromRow = parseInt_at1 from_sq; fromCol = col_of from_sq;
          toRow = parseInt_at1 to_sq; toCol = col_of to_sq
      in if outside fromRow \<or> outside fromCol \<or> outside toRow \<or> outside toCol then Inr False
         else case Option.bind fromRow (\<lambda>r. js_index board (7 - r)) of
                None \<Rightarrow> Inl TypeError
              | Some row \<Rightarrow>
                 (case Option.bind (Option.bind fromCol (js_index row)) (\<lambda>x. x) of
                    None \<Rightarrow> Inr False
                  | Some piece \<Rightarrow>
                      Inr ((if piece = toUpperCase piece then ''white'' else ''black'') = playerColor)))"

text \<open>
  \<open>board[r][c] = v\<close> for a row that exists. A column inside the row overwrites that
  cell. A column at or beyond the length of the row makes the array grow up to that index;
  the cells in between are holes, which read as \<open>undefined\<close> (here the empty cell). A
  column that is \<open>NaN\<close> or negative sets a property that is no element of the array, and
  the cells stay as they are.
\<close>

definition set_cell :: "char option list list \<Rightarrow> int \<Rightarrow> int option \<Rightarrow> char option \<Rightarrow> char option list list" where
  "set_cell b r c v =
     (case c of
        None \<Rightarrow> b
      | Some j \<Rightarrow>
          if j < 0 then b
          else let row = b ! nat r;
                   grown = row @ replicate (Suc (nat j) - length row) None
               in b[nat r := grown[nat j := v]])"

text \<open>
  \<open>makeMove\<close>: two assignments. Either raises when its row is \<open>undefined\<close> (a row index
  that is \<open>NaN\<close> or outside the board), and the first one to run raises before anything
  is written. A cell read outside its row is \<open>undefined\<close>, kept as the empty cell.
\<close>

definition makeMove :: "char option list list \<Rightarrow> string \<Rightarrow> string \<Rightarrow> js_error + char option list list" where
  "makeMove board from_sq to_sq =
     (let fromRow = map_option (\<lambda>r. 7 - r) (parseInt_at1 from_sq); fromCol = col_of from_sq;
          toRow = map_option (\<lambda>r. 7 - r) (parseInt_at1 to_sq); toCol = col_of to_sq
      in case (toRow, fromRow) of
           (Some tr, Some fr) \<Rightarrow>
             (case (js_index board tr, js_index board fr) of
                (Some trow, Some frow) \<Rightarrow>
                  (let piece = Option.bind (Option.bind fromCol (js_index frow)) (\<lambda>x. x);
                       b1 = set_cell board tr toCol piece
                   in Inr (set_cell b1 fr fromCol None))
              | _ \<Rightarrow> Inl TypeError)
         | _ \<Rightarrow> Inl TypeError)"

definition isCheckmate :: "char option list list \<Rightarrow> string \<Rightarrow> bool" where
  "isCheckmate board c = False"

definition isStalemate :: "char option list list \<Rightarrow> string \<Rightarrow> bool" where
  "isStalemate board c = False"

definition chess_create :: "(string, chess_game) jsmap \<Rightarrow> user \<Rightarrow> nat \<Rightarrow>
    response \<times> (string, chess_game) jsmap" where
  "chess_create games u now =
     (if role u \<noteq> ''gamer'' then (gaming_access_required, games)
      else
        let gid = toString now;
            newGame = \<lparr>game_id = gid, players = [username u], status = Waiting, winner = None,
                       createdAt = now, c_board = initializeChessBoard, turn = ''white'',
                       moves = []\<rparr>
        in (Success, AList.update gid newGame games))"

definition chess_join :: "(string, chess_game) jsmap \<Rightarrow> user \<Rightarrow> string \<Rightarrow>
    response \<times> (string, chess_game) jsmap \<times> chess_game emitted list" where
  "chess_join games u gid =
     (if role u \<noteq> ''gamer'' then (gaming_access_required, games, [])
      else case map_of games gid of
        None \<Rightarrow> (game_not_found, games, [])
      | Some g \<Rightarrow>
          if length (players g) \<ge> 2 then (Failure 400 ''Game is full'', games, [])
          else if username u \<in> set (players g)
          then (Failure 400 ''Already in this game'', games, [])
          else
            let g1 = g\<lparr>players := players g @ [username u], status := Playing\<rparr>
            in (Success, AList.update gid g1 games, [emit_gaming ''game-updated'' gid g1]))"

definition chess_move :: "(string, chess_game) jsmap \<Rightarrow> user \<Rightarrow> string \<Rightarrow> string \<Rightarrow> string \<Rightarrow> nat \<Rightarrow>
    response \<times> (string, chess_game) jsmap \<times> chess_game emitted list" where
  "chess_move games u gid from_sq to_sq now =
     (if role u \<noteq> ''gamer'' then (gaming_access_required, games, [])
      else case map_of games gid of
        None \<Rightarrow> (game_not_found, games, [])
      | Some g \<Rightarrow>
          if username u \<notin> set (players g)
          then (Failure 403 ''Not a player in this game'', games, [])
          else
            let playerColor = (if js_index (players g) 0 = Some (username u)
                               then ''white'' else ''black'')
            in if turn g \<noteq> playerColor then (not_your_turn, games, [])
               else case isValidMove (c_board g) from_sq to_sq playerColor of
                 Inl e \<Rightarrow> (Uncaught e, games, [])
               | Inr valid \<Rightarrow>
                   if \<not> valid then (Failure 400 ''Invalid move'', games, [])
                   else case makeMove (c_board g) from_sq to_sq of
                     Inl e \<Rightarrow> (Uncaught e, games, [])
                   | Inr b \<Rightarrow>
                       let g1 = g\<lparr>c_board := b,
                                  moves := moves g @ [\<lparr>mv_from = from_sq, mv_to = to_sq,
                                                       mv_player = username u, mv_timestamp = now\<rparr>],
                                  turn := (if turn g = ''white'' then ''black'' else ''white'')\<rparr>;
                           g2 = (if isCheckmate (c_board g1) (turn g1)
                                 then g1\<lparr>status := Finished, winner := Some playerColor\<rparr>
                                 else if isStalemate (c_board g1) (turn g1)
                                 then g1\<lparr>status := Draw\<rparr>
                                 else g1)
                       in (Success, AList.update gid g2 games, [emit_gaming ''move-made'' gid g2]))"

text \<open>
  The colour the chess move endpoint gives its caller:
  \<open>game.players[0] === req.session.user.username ? 'white' : 'black'\<close>.
\<close>

definition playerColor :: "chess_game \<Rightarrow> user \<Rightarrow> string" where
  "playerColor g u = (if js_index (players g) 0 = Some (username u) then ''white'' else ''black'')"

section \<open>The grid game\<close>

record ttt_player = player +
  symbol :: string

record ttt_game = "ttt_player match" +
  t_board :: "string list"
  currentPlayer :: string

definition winPatterns :: "(int \<times> int \<times> int) list" where
  "winPatterns = [(0, 1, 2), (3, 4, 5), (6, 7, 8), (0, 3, 6), (1, 4, 7), (2, 5, 8),
                  (0, 4, 8), (2, 4, 6)]"

text \<open>
  \<open>checkTicTacToeWinner\<close>: the first pattern whose first cell is truthy (a non-empty
  string) and equal to the other two; \<open>null\<close> (\<open>None\<close>) when there is none.
\<close>

fun first_win :: "string list \<Rightarrow> (int \<times> int \<times> int) list \<Rightarrow> string option" where
  "first_win b [] = None"
| "first_win b ((x, y, z) # ps) =
     (case js_index b x of
        Some s \<Rightarrow> if s \<noteq> [] \<and> js_index b y = Some s \<and> js_index b z = Some s
                  then Some s else first_win b ps
      | None \<Rightarrow> first_win b ps)"

definition checkTicTacToeWinner :: "string list \<Rightarrow> string option" where
  "checkTicTacToeWinner b = first_win b winPatterns"

definition ttt_create :: "(string, ttt_game) jsmap \<Rightarrow> user \<Rightarrow> nat \<Rightarrow>
    response \<times> (string, ttt_game) jsmap" where
  "ttt_create games u now =
     (if role u \<noteq> ''gamer'' then (gaming_access_required, games)
      else
        let gid = ''ttt_'' @ toString now;
            newGame = \<lparr>game_id = gid,
                       players = [\<lparr>name = username u, socketId = None, symbol = ''X''\<rparr>],
                       status = Waiting, winner = None, createdAt = now,
                       t_board = replicate 9 [], currentPlayer = ''X''\<rparr>
        in (Success, AList.update gid newGame games))"

definition ttt_join :: "(string, ttt_game) jsmap \<Rightarrow> user \<Rightarrow> string \<Rightarrow>
    response \<times> (string, ttt_game) jsmap \<times> ttt_game emitted list" where
  "ttt_join games u gid =
     (if role u \<noteq> ''gamer'' then (gaming_access_required, games, [])
      else case map_of games gid of
        None \<Rightarrow> (game_not_found, games, [])
      | Some g \<Rightarrow>
          if length (players g) \<ge> 2 then (Failure 400 ''Game is full'', games, [])
          else if \<exists>p \<in> set (players g). name p = username u
          then (Failure 400 ''Already in this game'', games, [])
          else
            let g1 = g\<lparr>players := players g @ [\<lparr>name = username u, socketId = None, symbol = ''O''\<rparr>],
                       status := Playing\<rparr>
            in (Success, AList.update gid g1 games, [emit_gaming ''tictactoe-game-updated'' gid g1]))"

text \<open>
  The move endpoint. \<open>game.board[position] !== ''\<close> is true for every position that is
  not the index of an empty cell (an index outside the board reads \<open>undefined\<close>).
\<close>

definition ttt_move :: "(string, ttt_game) jsmap \<Rightarrow> user \<Rightarrow> string \<Rightarrow> int \<Rightarrow>
    response \<times> (string, ttt_game) jsmap \<times> ttt_game emitted list" where
  "ttt_move games u gid pos =
     (if role u \<noteq> ''gamer'' then (gaming_access_required, games, [])
      else case map_of games gid of
        None \<Rightarrow> (game_not_found, games, [])
      | Some g \<Rightarrow>
         (case find (\<lambda>p. name p = username u) (players g) of
            None \<Rightarrow> (Failure 403 ''Not a player in this game'', games, [])
          | Some pl \<Rightarrow>
              if currentPlayer g \<noteq> symbol pl then (not_your_turn, games, [])
              else if js_index (t_board g) pos \<noteq> Some []
              then (Failure 400 ''Position already taken'', games, [])
              else
                let g1 = g\<lparr>t_board := (t_board g)[nat pos := symbol pl]\<rparr>;
                    w = checkTicTacToeWinner (t_board g1);
                    g2 = (if w \<noteq> None then g1\<lparr>status := Finished, winner := w\<rparr>
                          else if \<forall>cell \<in> set (t_board g1). cell \<noteq> []
                          then g1\<lparr>status := Draw\<rparr>
                          else g1\<lparr>currentPlayer := (if currentPlayer g1 = ''X'' then ''O'' else ''X'')\<rparr>)
                in (Success, AList.update gid g2 games,
                    [emit_gaming ''tictactoe-move-made'' gid g2])))"

section \<open>The race game\<close>

record piece =
  position :: int
  piece_id :: nat

record ludo_player = player +
  pieces :: "piece list"
  piecesInGoal :: int
  isComputer :: bool
  difficulty :: "string option"

text \<open>
  \<open>maxPlayers\<close> is \<open>Math.min(Math.max(playerCount, 2), 8)\<close> after a start, which is
  \<open>NaN\<close> (\<open>None\<close>) when the body has no numeric \<open>playerCount\<close>. \<open>board\<close> is \<open>null\<close>
  or, after a start, an array of 52 \<open>null\<close>s that nothing reads: its length.
\<close>

record ludo_game = "ludo_player match" +
  l_maxPlayers :: "int option"
  l_currentPlayerIndex :: int
  diceRolled :: bool
  lastDiceRoll :: "int option"
  l_board :: "nat option"
  gameMode :: "string option"

definition home_pieces :: "piece list" where
  "home_pieces = [\<lparr>position = -1, piece_id = 0\<rparr>, \<lparr>position = -1, piece_id = 1\<rparr>,
                  \<lparr>position = -1, piece_id = 2\<rparr>, \<lparr>position = -1, piece_id = 3\<rparr>]"

definition human :: "string \<Rightarrow> ludo_player" where
  "human n = \<lparr>name = n, socketId = None, pieces = home_pieces, piecesInGoal = 0,
              isComputer = False, difficulty = None\<rparr>"

definition initializeLudoBoard :: nat where
  "initializeLudoBoard = 52"

definition ludo_create :: "(string, ludo_game) jsmap \<Rightarrow> user \<Rightarrow> nat \<Rightarrow>
    response \<times> (string, ludo_game) jsmap" where
  "ludo_create games u now =
     (if role u \<noteq> ''gamer'' then (gaming_access_required, games)
      else
        let gid = ''ludo_'' @ toString now;
            newGame = \<lparr>game_id = gid, players = [human (username u)], status = Waiting,
                       winner = None, createdAt = now, l_maxPlayers = Some 4,
                       l_currentPlayerIndex = 0, diceRolled = False, lastDiceRoll = None,
                       l_board = None, gameMode = None\<rparr>
        in (Success, AList.update gid newGame games))"

text \<open>\<open>game.players.length >= game.maxPlayers\<close>: false against \<open>NaN\<close>.\<close>

definition ludo_full :: "ludo_game \<Rightarrow> bool" where
  "ludo_full g = (case l_maxPlayers g of None \<Rightarrow> False | Some m \<Rightarrow> int (length (players g)) \<ge> m)"

definition ludo_join :: "(string, ludo_game) jsmap \<Rightarrow> user \<Rightarrow> string \<Rightarrow>
    response \<times> (string, ludo_game) jsmap \<times> ludo_game emitted list" where
  "ludo_join games u gid =
     (if role u \<noteq> ''gamer'' then (gaming_access_required, games, [])
      else case map_of games gid of
        None \<Rightarrow> (game_not_found, games, [])
      | Some g \<Rightarrow>
          if ludo_full g then (Failure 400 ''Game is full'', games, [])
          else if \<exists>p \<in> set (players g). name p = username u
          then (Failure 400 ''Already in this game'', games, [])
          else
            let g1 = g\<lparr>players := players g @ [human (username u)]\<rparr>
            in (Success, AList.update gid g1 games, [emit_gaming ''ludo-game-updated'' gid g1]))"

text \<open>
  The computer players of a start request. \<open>d\<close> is \<open>req.body.difficulty || 'medium'\<close>;
  its first letter is upper-cased for the name (ASCII letters, as the client sends them).
\<close>

definition capitalize :: "string \<Rightarrow> string" where
  "capitalize s = (case s of [] \<Rightarrow> [] | c # cs \<Rightarrow> toUpperCase c # cs)"

definition computer_player :: "string option \<Rightarrow> string \<Rightarrow> nat \<Rightarrow> ludo_player" where
  "computer_player mode d i =
     (if mode = Some ''single''
      then \<lparr>name = ''Computer ('' @ capitalize d @ '')'', socketId = None, pieces = home_pieces,
            piecesInGoal = 0, isComputer = True, difficulty = Some d\<rparr>
      else \<lparr>name = ''Computer '' @ toString (i + 1), socketId = None, pieces = home_pieces,
            piecesInGoal = 0, isComputer = True, difficulty = Some ''medium''\<rparr>)"

text \<open>
  The start endpoint: no check of the caller's membership or of the match's status.
  \<open>playerCount\<close> is \<open>None\<close> when the body carries no number there.
\<close>

definition ludo_start :: "(string, ludo_game) jsmap \<Rightarrow> user \<Rightarrow> string \<Rightarrow> int option \<Rightarrow> bool \<Rightarrow>
    string option \<Rightarrow> string option \<Rightarrow>
    response \<times> (string, ludo_game) jsmap \<times> ludo_game emitted list" where
  "ludo_start games u gid playerCount addComputer mode diff =
     (if role u \<noteq> ''gamer'' then (gaming_access_required, games, [])
      else case map_of games gid of
        None \<Rightarrow> (game_not_found, games, [])
      | Some g \<Rightarrow>
          let maxP = map_option (\<lambda>n. min (max n 2) 8) playerCount;
              mode1 = (case mode of None \<Rightarrow> ''multi'' | Some m \<Rightarrow> if m = [] then ''multi'' else m);
              d = (case diff of None \<Rightarrow> ''medium'' | Some x \<Rightarrow> if x = [] then ''medium'' else x);
              needed = (case maxP of None \<Rightarrow> 0 | Some m \<Rightarrow> nat (m - int (length (players g))));
              computers = (if addComputer then map (computer_player mode d) [0..<needed] else []);
              g1 = g\<lparr>players := players g @ computers, status := Playing,
                     l_maxPlayers := maxP, l_board := Some initializeLudoBoard,
                     gameMode := Some mode1\<rparr>
          in (Success, AList.update gid g1 games, [emit_gaming ''ludo-game-started'' gid g1]))"

text \<open>
  \<open>getValidMoves(game, playerIndex, diceRoll).length === 0\<close>, the only use made of the
  list of valid moves.
\<close>

definition has_valid_move :: "ludo_player \<Rightarrow> int \<Rightarrow> bool" where
  "has_valid_move p diceRoll =
     (\<exists>pc \<in> set (pieces p).
        (position pc = -1 \<and> diceRoll = 6) \<or>
        (\<not> (position pc = -1 \<and> diceRoll = 6) \<and> position pc \<ge> 0 \<and> position pc < 51
           \<and> position pc + diceRoll \<le> 56))"

text \<open>
  The roll endpoint. \<open>die\<close> stands for the random draw: \<open>die mod 6 + 1\<close> ranges over the
  values 1..6 of \<open>Math.floor(Math.random() * 6) + 1\<close>. The handler also schedules a
  task one second later; it is \<open>ludo_roll_timeout\<close> below.
\<close>

definition ludo_roll :: "nat \<Rightarrow> (string, ludo_game) jsmap \<Rightarrow> user \<Rightarrow> string \<Rightarrow>
    response \<times> (string, ludo_game) jsmap \<times> ludo_game emitted list" where
  "ludo_roll die games u gid =
     (if role u \<noteq> ''gamer'' then (gaming_access_required, games, [])
      else case map_of games gid of
        None \<Rightarrow> (game_not_found, games, [])
      | Some g \<Rightarrow>
         (case js_index (players g) (l_currentPlayerIndex g) of
            None \<Rightarrow> (Uncaught TypeError, games, [])
          | Some cp \<Rightarrow>
              if name cp \<noteq> username u then (not_your_turn, games, [])
              else if diceRolled g then (Failure 400 ''Dice already rolled'', games, [])
              else
                let g1 = g\<lparr>lastDiceRoll := Some (int (die mod 6 + 1)), diceRolled := True\<rparr>
                in (Success, AList.update gid g1 games, [emit_gaming ''ludo-dice-rolled'' gid g1])))"

text \<open>
  The task the roll schedules, run on the match as it stands one second later: \<open>cp\<close> is
  the player object and \<open>diceRoll\<close> the value the roll captured.
\<close>

definition ludo_roll_timeout :: "ludo_player \<Rightarrow> int \<Rightarrow> ludo_game \<Rightarrow> js_error + ludo_game" where
  "ludo_roll_timeout cp diceRoll g =
     (if isComputer cp then
        Inr (g\<lparr>l_currentPlayerIndex := js_rem (l_currentPlayerIndex g + 1) (int (length (players g))),
               diceRolled := False, lastDiceRoll := None\<rparr>)
      else case js_index (players g) (l_currentPlayerIndex g) of
        None \<Rightarrow> Inl TypeError
      | Some p \<Rightarrow>
          if \<not> has_valid_move p diceRoll then
            Inr (g\<lparr>l_currentPlayerIndex := js_rem (l_currentPlayerIndex g + 1) (int (length (players g))),
                   diceRolled := False, lastDiceRoll := None\<rparr>)
          else Inr g)"

text \<open>
  The \<open>ludo-move\<close> channel message of a socket whose user is \<open>sockUser\<close>. It returns
  silently on an unknown match, on a match that is not being played and on a foreign turn.
\<close>

definition ludo_move :: "(string, ludo_game) jsmap \<Rightarrow> string \<Rightarrow> string \<Rightarrow> int \<Rightarrow> int \<Rightarrow>
    js_error option \<times> (string, ludo_game) jsmap \<times> ludo_game emitted list" where
  "ludo_move games sockUser gid pieceIndex diceRoll =
     (case map_of games gid of
        None \<Rightarrow> (None, games, [])
      | Some g \<Rightarrow>
          if status g \<noteq> Playing then (None, games, [])
          else case js_index (players g) (l_currentPlayerIndex g) of
            None \<Rightarrow> (Some TypeError, games, [])
          | Some cp \<Rightarrow>
              if name cp \<noteq> sockUser then (None, games, [])
              else case js_index (pieces cp) pieceIndex of
                None \<Rightarrow> (Some TypeError, games, [])
              | Some pc \<Rightarrow>
                  let k = nat (l_currentPlayerIndex g);
                      cp1 = (if position pc = -1 \<and> diceRoll = 6
                             then cp\<lparr>pieces := (pieces cp)[nat pieceIndex := pc\<lparr>position := 0\<rparr>]\<rparr>
                             else if position pc \<ge> 0
                             then (let np = min (position pc + diceRoll) 56
                                   in cp\<lparr>pieces := (pieces cp)[nat pieceIndex := pc\<lparr>position := np\<rparr>],
                                         piecesInGoal := (if np = 56 then piecesInGoal cp + 1
                                                          else piecesInGoal cp)\<rparr>)
                             else cp);
                      g1 = g\<lparr>players := (players g)[k := cp1]\<rparr>;
                      g2 = (if piecesInGoal cp1 = 4
                            then g1\<lparr>status := Finished, winner := Some (name cp1)\<rparr> else g1);
                      g3 = (if diceRoll \<noteq> 6
                            then g2\<lparr>l_currentPlayerIndex :=
                                      js_rem (l_currentPlayerIndex g2 + 1) (int (length (players g2)))\<rparr>
                            else g2);
                      g4 = g3\<lparr>diceRolled := False, lastDiceRoll := None\<rparr>
                  in (None, AList.update gid g4 games, [emit_gaming ''ludo-move-made'' gid g4]))"

section \<open>Connections, disconnects and the sweep\<close>

text \<open>\<open>s.includes(sub)\<close>.\<close>

fun str_includes :: "string \<Rightarrow> string \<Rightarrow> bool" where
  "str_includes [] sub = (sub = [])"
| "str_includes (x # xs) sub = (take (length sub) (x # xs) = sub \<or> str_includes xs sub)"

text \<open>
  A socket: its transport id, the user the session bridge attached, the \<open>Referer\<close> header
  of its handshake, and \<open>socket.sessionId\<close>, a property nothing in the source assigns.
\<close>

record socket =
  sock_id :: string
  sock_user :: user
  sessionId :: "string option"
  referer :: "string option"

text \<open>\<open>socket.handshake.headers.referer?.includes('homepage.html')\<close>, as a condition.\<close>

definition isHomepageUser :: "socket \<Rightarrow> bool" where
  "isHomepageUser s = (case referer s of None \<Rightarrow> False | Some r \<Rightarrow> str_includes r ''homepage.html'')"

datatype container = ChessGames | LudoGames | TicTacToeGames | UnoGames

text \<open>\<open>setTimeout(() => container.delete(gameId), delay)\<close>.\<close>

record timer =
  delay :: nat
  target :: container
  key :: string

record world =
  chessGames :: "(string, chess_game) jsmap"
  ludoGames :: "(string, ludo_game) jsmap"
  ticTacToeGames :: "(string, ttt_game) jsmap"
  unoGames :: "(string, uno_game) jsmap"
  activeConnections :: int
  homepageConnections :: int
  authenticatedConnections :: int
  timers :: "timer list"

definition maxConnections :: int where
  "maxConnections = 300"

datatype socket_event = ServerOverload string nat

text \<open>
  What the connection handler does with a new socket: the counters, the events sent to
  the socket, whether it was disconnected, and whether the handlers (among them the
  disconnect handler) were registered on it.
\<close>

record admission_result =
  world_after :: world
  sent :: "socket_event list"
  disconnected :: bool
  registered :: bool

definition on_connection :: "world \<Rightarrow> socket \<Rightarrow> admission_result" where
  "on_connection w s =
     (let w1 = w\<lparr>activeConnections := activeConnections w + 1\<rparr>;
          w2 = (if isHomepageUser s
                then w1\<lparr>homepageConnections := homepageConnections w1 + 1\<rparr>
                else w1\<lparr>authenticatedConnections := authenticatedConnections w1 + 1\<rparr>)
      in if activeConnections w2 > maxConnections
         then
           (let w3 = w2\<lparr>activeConnections := activeConnections w2 - 1\<rparr>;
                w4 = (if isHomepageUser s
                      then w3\<lparr>homepageConnections := homepageConnections w3 - 1\<rparr>
                      else w3\<lparr>authenticatedConnections := authenticatedConnections w3 - 1\<rparr>)
            in \<lparr>world_after = w4,
                sent = [ServerOverload ''Server at capacity, please try again in a few moments'' 30000],
                disconnected = True, registered = False\<rparr>)
         else \<lparr>world_after = w2, sent = [], disconnected = False, registered = True\<rparr>)"

text \<open>
  One loop of the disconnect handler: every entry whose match satisfies the test gets
  \<open>status = 'abandoned'\<close> and a deletion task five minutes later.
\<close>

definition abandon :: "container \<Rightarrow> (('p, 'a) match_scheme \<Rightarrow> bool) \<Rightarrow>
    (string, ('p, 'a) match_scheme) jsmap \<Rightarrow> (string, ('p, 'a) match_scheme) jsmap \<times> timer list" where
  "abandon c test games =
     (map (\<lambda>(k, g). (k, if test g then g\<lparr>status := Abandoned\<rparr> else g)) games,
      map (\<lambda>(k, g). \<lparr>delay = 300000, target = c, key = k\<rparr>) (filter (\<lambda>(k, g). test g) games))"

text \<open>\<open>game.players.includes(socket.sessionId)\<close> on an array of user names.\<close>

definition chess_has :: "socket \<Rightarrow> chess_game \<Rightarrow> bool" where
  "chess_has s g = (case sessionId s of None \<Rightarrow> False | Some x \<Rightarrow> x \<in> set (players g))"

text \<open>\<open>game.players.some(p => p.socketId === socket.id)\<close> (and the \<open>findIndex\<close> form).\<close>

definition has_socket :: "socket \<Rightarrow> ('b player_scheme, 'a) match_scheme \<Rightarrow> bool" where
  "has_socket s g = (\<exists>p \<in> set (players g). socketId p = Some (sock_id s))"

definition on_disconnect :: "world \<Rightarrow> socket \<Rightarrow> world" where
  "on_disconnect w s =
     (let w1 = w\<lparr>activeConnections := activeConnections w - 1\<rparr>;
          w2 = (if isHomepageUser s
                then w1\<lparr>homepageConnections := homepageConnections w1 - 1\<rparr>
                else w1\<lparr>authenticatedConnections := authenticatedConnections w1 - 1\<rparr>)
      in if \<not> isHomepageUser s
         then
           (let (cg, t1) = abandon ChessGames (chess_has s) (chessGames w2);
                (lg, t2) = abandon LudoGames (has_socket s) (ludoGames w2);
                (tg, t3) = abandon TicTacToeGames (has_socket s) (ticTacToeGames w2);
                (ug, t4) = abandon UnoGames (has_socket s) (unoGames w2)
            in w2\<lparr>chessGames := cg, ludoGames := lg, ticTacToeGames := tg, unoGames := ug,
                  timers := timers w2 @ t1 @ t2 @ t3 @ t4\<rparr>)
         else w2)"

text \<open>A deletion task fires: \<open>container.delete(gameId)\<close>, whatever the entry holds.\<close>

definition timer_fire :: "timer \<Rightarrow> world \<Rightarrow> world" where
  "timer_fire t w =
     (case target t of
        ChessGames \<Rightarrow> w\<lparr>chessGames := AList.delete (key t) (chessGames w)\<rparr>
      | LudoGames \<Rightarrow> w\<lparr>ludoGames := AList.delete (key t) (ludoGames w)\<rparr>
      | TicTacToeGames \<Rightarrow> w\<lparr>ticTacToeGames := AList.delete (key t) (ticTacToeGames w)\<rparr>
      | UnoGames \<Rightarrow> w\<lparr>unoGames := AList.delete (key t) (unoGames w)\<rparr>)"

text \<open>
  The periodic cleanup, every minute: an entry goes when it is abandoned and was created
  more than five minutes before \<open>now\<close>.
\<close>

definition sweep_games :: "int \<Rightarrow> (string, ('p, 'a) match_scheme) jsmap \<Rightarrow> (string, ('p, 'a) match_scheme) jsmap" where
  "sweep_games now games =
     filter (\<lambda>(k, g). \<not> (status g = Abandoned \<and> int (createdAt g) < now - 300000)) games"

definition sweep :: "int \<Rightarrow> world \<Rightarrow> world" where
  "sweep now w =
     w\<lparr>chessGames := sweep_games now (chessGames w), ludoGames := sweep_games now (ludoGames w),
       ticTacToeGames := sweep_games now (ticTacToeGames w),
       unoGames := sweep_games now (unoGames w)\<rparr>"

section \<open>The two caches\<close>

record 'v cache_entry =
  data :: 'v
  timestamp :: int

definition CACHE_DURATION :: int where
  "CACHE_DURATION = 60000"

definition HOMEPAGE_CACHE_DURATION :: int where
  "HOMEPAGE_CACHE_DURATION = 30000"

text \<open>
  The read path, with the cache it leaves behind. \<open>null\<close>, the answer on a miss, is
  \<open>None\<close>; \<open>now\<close> is \<open>Date.now()\<close>.
\<close>

definition cache_get :: "int \<Rightarrow> (string, 'v cache_entry) jsmap \<Rightarrow> string \<Rightarrow> int \<Rightarrow>
    'v option \<times> (string, 'v cache_entry) jsmap" where
  "cache_get ttl cache k now =
     (case map_of cache k of
        Some cached \<Rightarrow> if now - timestamp cached < ttl then (Some (data cached), cache) else (None, cache)
      | None \<Rightarrow> (None, cache))"

definition getCachedData :: "(string, 'v cache_entry) jsmap \<Rightarrow> string \<Rightarrow> int \<Rightarrow>
    'v option \<times> (string, 'v cache_entry) jsmap" where
  "getCachedData = cache_get CACHE_DURATION"

definition getHomepageCachedData :: "(string, 'v cache_entry) jsmap \<Rightarrow> string \<Rightarrow> int \<Rightarrow>
    'v option \<times> (string, 'v cache_entry) jsmap" where
  "getHomepageCachedData = cache_get HOMEPAGE_CACHE_DURATION"

text \<open>
  The write path: store, then drop the first key in insertion order when the size
  exceeds the bound.
\<close>

definition cache_set :: "nat \<Rightarrow> (string, 'v cache_entry) jsmap \<Rightarrow> string \<Rightarrow> 'v \<Rightarrow> int \<Rightarrow>
    (string, 'v cache_entry) jsmap" where
  "cache_set bound cache k v now =
     (let c1 = AList.update k \<lparr>data = v, timestamp = now\<rparr> cache
      in if length c1 > bound then AList.delete (fst (hd c1)) c1 else c1)"

definition setCachedData :: "(string, 'v cache_entry) jsmap \<Rightarrow> string \<Rightarrow> 'v \<Rightarrow> int \<Rightarrow>
    (string, 'v cache_entry) jsmap" where
  "setCachedData = cache_set 50"

definition setHomepageCachedData :: "(string, 'v cache_entry) jsmap \<Rightarrow> string \<Rightarrow> 'v \<Rightarrow> int \<Rightarrow>
    (string, 'v cache_entry) jsmap" where
  "setHomepageCachedData = cache_set 20"

text \<open>The cache part of the periodic cleanup.\<close>

definition sweep_cache :: "int \<Rightarrow> int \<Rightarrow> (string, 'v cache_entry) jsmap \<Rightarrow> (string, 'v cache_entry) jsmap" where
  "sweep_cache ttl now cache = filter (\<lambda>(k, e). \<not> timestamp e < now - ttl) cache"

text \<open>
  The states a cache of the running server can be in: it starts empty and is changed
  only by its write path, by the \<open>delete\<close> calls of \<open>broadcastDataChange\<close> and by the
  periodic cleanup.
\<close>

inductive cache_state :: "nat \<Rightarrow> int \<Rightarrow> (string, 'v cache_entry) jsmap \<Rightarrow> bool"
  for bound :: nat and ttl :: int where
  cache_empty: "cache_state bound ttl []"
| cache_write: "cache_state bound ttl c \<Longrightarrow> cache_state bound ttl (cache_set bound c k v now)"
| cache_invalidate: "cache_state bound ttl c \<Longrightarrow> cache_state bound ttl (AList.delete k c)"
| cache_sweep: "cache_state bound ttl c \<Longrightarrow> cache_state bound ttl (sweep_cache ttl now c)"

section \<open>The session bridge\<close>

text \<open>
  The strings of the handshake are sequences of UTF-16 code units, here natural numbers:
  a header arrives with units below 256, and \<open>decodeURIComponent\<close> can produce any unit.
\<close>

type_synonym ustring = "nat list"

definition lit :: "string \<Rightarrow> ustring" where
  "lit s = map of_char s"

text \<open>\<open>s.split(sep)\<close> for a separator of one unit: never empty, \<open>''.split(sep)\<close> is \<open>['']\<close>.\<close>

fun split_on :: "nat \<Rightarrow> ustring \<Rightarrow> ustring list" where
  "split_on sep [] = [[]]"
| "split_on sep (x # xs) =
     (if x = sep then [] # split_on sep xs
      else case split_on sep xs of
             [] \<Rightarrow> [[x]]
           | y # ys \<Rightarrow> (x # y) # ys)"

text \<open>\<open>s.trim()\<close>: white space and line terminators of ECMAScript, removed at both ends.\<close>

definition is_space :: "nat \<Rightarrow> bool" where
  "is_space u = (u \<in> {9, 10, 11, 12, 13, 32, 160, 5760, 8232, 8233, 8239, 8287, 12288, 65279}
                 \<or> (8192 \<le> u \<and> u \<le> 8202))"

definition trim :: "ustring \<Rightarrow> ustring" where
  "trim s = rev (dropWhile is_space (rev (dropWhile is_space s)))"

text \<open>
  The cookie parser of the middleware: each \<open>;\<close>-separated part with at least one \<open>=\<close>
  sets \<open>cookies[name.trim()]\<close> to the text between its first and second \<open>=\<close>; a later
  part overwrites an earlier one of the same name.
\<close>

definition parse_cookies :: "ustring \<Rightarrow> (ustring \<rightharpoonup> ustring)" where
  "parse_cookies h =
     fold (\<lambda>c m. case split_on 61 c of k # v # _ \<Rightarrow> m(trim k \<mapsto> v) | _ \<Rightarrow> m)
          (split_on 59 h) Map.empty"

text \<open>
  \<open>decodeURIComponent\<close> (ECMAScript \<open>Decode\<close> with no reserved set). The input is cut
  into plain units and \<open>%XX\<close> escapes; a \<open>%\<close> without two hexadecimal digits after it
  raises \<open>URIError\<close>.
\<close>

definition hex_val :: "nat \<Rightarrow> nat option" where
  "hex_val u =
     (if 48 \<le> u \<and> u \<le> 57 then Some (u - 48)
      else if 65 \<le> u \<and> u \<le> 70 then Some (u - 55)
      else if 97 \<le> u \<and> u \<le> 102 then Some (u - 87)
      else None)"

datatype uri_token = Plain nat | Escape nat | Malformed

fun uri_tokens :: "ustring \<Rightarrow> uri_token list" where
  "uri_tokens [] = []"
| "uri_tokens [c] = (if c = 37 then [Malformed] else [Plain c])"
| "uri_tokens [c, d] = (if c = 37 then [Malformed] else Plain c # uri_tokens [d])"
| "uri_tokens (c # h1 # h2 # cs) =
     (if c = 37 then
        (case (hex_val h1, hex_val h2) of
           (Some a, Some b) \<Rightarrow> Escape (16 * a + b) # uri_tokens cs
         | _ \<Rightarrow> [Malformed])
      else Plain c # uri_tokens (h1 # h2 # cs))"

text \<open>
  An escaped octet of 128 or more starts a UTF-8 sequence of \<open>n\<close> octets, \<open>n\<close> the number
  of its leading one bits; the other \<open>n - 1\<close> must be escapes of the form \<open>10xxxxxx\<close>, and
  the sequence must be the shortest encoding of a code point that is no surrogate and at
  most \<open>0x10FFFF\<close>. The code point is appended in UTF-16.
\<close>

definition seq_length :: "nat \<Rightarrow> nat" where
  "seq_length b = (if b < 128 then 0 else if b < 192 then 1 else if b < 224 then 2
                   else if b < 240 then 3 else if b < 248 then 4 else 5)"

fun continuation :: "uri_token \<Rightarrow> nat option" where
  "continuation (Escape b) = (if 128 \<le> b \<and> b < 192 then Some (b - 128) else None)"
| "continuation _ = None"

fun code_point :: "nat \<Rightarrow> uri_token list \<Rightarrow> nat option" where
  "code_point acc [] = Some acc"
| "code_point acc (t # ts) =
     (case continuation t of None \<Rightarrow> None | Some v \<Rightarrow> code_point (64 * acc + v) ts)"

definition utf8_value :: "nat \<Rightarrow> uri_token list \<Rightarrow> nat option" where
  "utf8_value b ts =
     (let n = seq_length b;
          lead = (if n = 2 then b - 192 else if n = 3 then b - 224 else b - 240);
          least = (if n = 2 then 128 else if n = 3 then 2048 else 65536)
      in if length ts \<noteq> n - 1 then None
         else case code_point lead ts of
           None \<Rightarrow> None
         | Some v \<Rightarrow> if v < least \<or> (55296 \<le> v \<and> v \<le> 57343) \<or> v > 1114111 then None
                      else Some v)"

definition utf16 :: "nat \<Rightarrow> ustring" where
  "utf16 v = (if v < 65536 then [v]
              else [55296 + (v - 65536) div 1024, 56320 + (v - 65536) mod 1024])"

function decode_tokens :: "uri_token list \<Rightarrow> js_error + ustring" where
  "decode_tokens [] = Inr []"
| "decode_tokens (Malformed # ts) = Inl URIError"
| "decode_tokens (Plain c # ts) =
     (case decode_tokens ts of Inl e \<Rightarrow> Inl e | Inr r \<Rightarrow> Inr (c # r))"
| "decode_tokens (Escape b # ts) =
     (if b < 128 then (case decode_tokens ts of Inl e \<Rightarrow> Inl e | Inr r \<Rightarrow> Inr (b # r))
      else if seq_length b = 1 \<or> seq_length b > 4 then Inl URIError
      else case utf8_value b (take (seq_length b - 1) ts) of
             None \<Rightarrow> Inl URIError
           | Some v \<Rightarrow>
               (case decode_tokens (drop (seq_length b - 1) ts) of
                  Inl e \<Rightarrow> Inl e
                | Inr r \<Rightarrow> Inr (utf16 v @ r)))"
  by pat_completeness auto
termination
  by (relation "measure length") auto

definition decodeURIComponent :: "ustring \<Rightarrow> js_error + ustring" where
  "decodeURIComponent s = decode_tokens (uri_tokens s)"

text \<open>
  The session store answers a \<open>get\<close> with an error, with no session, or with a session
  that may hold a user.
\<close>

datatype store_reply = StoreError | NoSession | Session "user option"

text \<open>
  What the middleware does with a handshake: it calls \<open>next()\<close> after setting
  \<open>socket.username\<close> and \<open>socket.role\<close>, it calls \<open>next(new Error(message))\<close>, or an
  exception leaves it before it has called \<open>next\<close>.
\<close>

datatype admission = Admitted user | Rejected string | Raised js_error

definition session_bridge :: "(ustring \<Rightarrow> store_reply) \<Rightarrow> ustring option \<Rightarrow> admission" where
  "session_bridge store cookieHeader =
     (case cookieHeader of
        None \<Rightarrow> Rejected ''Authentication required: No cookies found''
      | Some h \<Rightarrow>
          if h = [] then Rejected ''Authentication required: No cookies found''
          else case parse_cookies h (lit ''sid'') of
            None \<Rightarrow> Rejected ''Authentication required: Session cookie missing''
          | Some raw \<Rightarrow>
              if raw = [] then Rejected ''Authentication required: Session cookie missing''
              else case decodeURIComponent raw of
                Inl e \<Rightarrow> Raised e
              | Inr sidCookie \<Rightarrow>
                  if take 2 sidCookie \<noteq> lit ''s:''
                  then Rejected ''Authentication required: Invalid session cookie format''
                  else
                    let sid = hd (split_on 46 (drop 2 sidCookie))
                    in if sid = [] then Rejected ''Authentication required: Invalid session ID''
                       else case store sid of
                         Session (Some usr) \<Rightarrow> Admitted usr
                       | _ \<Rightarrow> Rejected ''Authentication required: Session not found or expired'')"

section \<open>Concrete inputs used by the examples\<close>

definition alice :: user where
  "alice = \<lparr>username = ''alice'', role = ''gamer''\<rparr>"

definition bob :: user where
  "bob = \<lparr>username = ''bob'', role = ''gamer''\<rparr>"

text \<open>
  A run of the shuffle whose first round swaps the top card with position 93 and whose
  other rounds swap each position with itself.
\<close>

definition rnd0 :: "nat \<Rightarrow> nat" where
  "rnd0 i = (if i = 107 then 93 else i)"

text \<open>The wild cards that the search for the first discard pops off a deck, top first.\<close>

definition skipped_wilds :: "card list \<Rightarrow> nat" where
  "skipped_wilds d = length (takeWhile (\<lambda>c. ctype c = ''wild'') (rev d))"

definition seat :: "string \<Rightarrow> uno_player" where
  "seat n = \<lparr>name = n, socketId = None, hand = [], saidUNO = False\<rparr>"

definition red_draw2 :: card where "red_draw2 = mk_card ''red'' ''draw2'' ''special''"
definition blue_5 :: card where "blue_5 = mk_card ''blue'' ''5'' ''number''"
definition green_1 :: card where "green_1 = mk_card ''green'' ''1'' ''number''"
definition yellow_3 :: card where "yellow_3 = mk_card ''yellow'' ''3'' ''number''"
definition red_7 :: card where "red_7 = mk_card ''red'' ''7'' ''number''"

definition two_seats :: uno_game where
  "two_seats = \<lparr>game_id = ''g0'', players = [seat ''alice'', seat ''bob''], status = Playing,
                winner = None, createdAt = 1000, u_maxPlayers = 4, deck = [], discardPile = [],
                u_currentPlayerIndex = 0, currentColor = [], currentNumber = [], direction = 1\<rparr>"

definition demo_game :: uno_game where
  "demo_game = \<lparr>game_id = ''g1'',
                players = [(seat ''alice'')\<lparr>hand := [Some red_draw2, Some blue_5]\<rparr>,
                           (seat ''bob'')\<lparr>hand := [Some green_1]\<rparr>],
                status = Playing, winner = None, createdAt = 1000, u_maxPlayers = 4,
                deck = [], discardPile = [yellow_3, red_7],
                u_currentPlayerIndex = 0, currentColor = ''red'', currentNumber = ''7'',
                direction = 1\<rparr>"

definition demo_games :: "(string, uno_game) jsmap" where
  "demo_games = [(''g1'', demo_game)]"

definition world0 :: world where
  "world0 = \<lparr>chessGames = [], ludoGames = [], ticTacToeGames = [], unoGames = [],
             activeConnections = 0, homepageConnections = 0, authenticatedConnections = 0,
             timers = []\<rparr>"

definition alice_socket :: socket where
  "alice_socket = \<lparr>sock_id = ''s1'', sock_user = alice, sessionId = None,
                    referer = Some ''http://host/index.html''\<rparr>"

definition visitor_socket :: socket where
  "visitor_socket = \<lparr>sock_id = ''s2'', sock_user = bob, sessionId = None,
                      referer = Some ''http://host/homepage.html''\<rparr>"

definition full_world :: world where
  "full_world = world0\<lparr>activeConnections := 300, homepageConnections := 180,
                        authenticatedConnections := 120\<rparr>"

definition alice_world :: world where
  "alice_world = world0\<lparr>chessGames := snd (chess_create [] alice 1000),
                         ludoGames := snd (ludo_create [] alice 1000),
                         ticTacToeGames := snd (ttt_create [] alice 1000),
                         unoGames := snd (uno_create [] alice 1000),
                         activeConnections := 1, authenticatedConnections := 1\<rparr>"

definition demo_world :: world where
  "demo_world = world0\<lparr>unoGames := demo_games\<rparr>"

definition unbound :: "('b player_scheme, 'a) match_scheme \<Rightarrow> bool" where
  "unbound g = list_all (\<lambda>p. socketId p = None) (players g)"

text \<open>
  What an action endpoint owes its caller: on success the match is in the container and
  exactly one event, carrying that match, goes to the gaming room; otherwise the container
  is as before and nothing is emitted.
\<close>

definition act_contract :: "string \<Rightarrow> string \<Rightarrow> (string, 'g) jsmap \<Rightarrow>
    response \<times> (string, 'g) jsmap \<times> 'g emitted list \<Rightarrow> bool" where
  "act_contract ev gid games res =
     (case res of (r, games', out) \<Rightarrow>
        if r = Success
        then (case map_of games' gid of
                None \<Rightarrow> False
              | Some g' \<Rightarrow> out = [\<lparr>room = ''gaming-room'', event = ev, gameId = gid, game = g'\<rparr>])
        else games' = games \<and> out = [])"

text \<open>A request is refused with the answer \<open>r\<close>: no match is changed and nothing is emitted.\<close>

definition refused :: "response \<Rightarrow> (string, 'g) jsmap \<Rightarrow>
    response \<times> (string, 'g) jsmap \<times> 'g emitted list \<Rightarrow> bool" where
  "refused r games res = (res = (r, games, []))"

text \<open>
  A request is accepted and leaves the match \<open>g'\<close>: the answer is a success, \<open>g'\<close> is what
  the container holds under the key, and exactly one event, carrying \<open>g'\<close>, goes to the
  gaming room.
\<close>

definition accepted :: "string \<Rightarrow> string \<Rightarrow> 'g \<Rightarrow>
    response \<times> (string, 'g) jsmap \<times> 'g emitted list \<Rightarrow> bool" where
  "accepted ev gid g' res =
     (fst res = Success \<and> map_of (fst (snd res)) gid = Some g'
      \<and> snd (snd res) = [\<lparr>room = ''gaming-room'', event = ev, gameId = gid, game = g'\<rparr>])"

text \<open>
  The status of every match after an operation is its status from before or one of \<open>S\<close>;
  and, for a create, every match afterwards is one from before or is waiting.
\<close>

definition status_writes :: "status set \<Rightarrow> (string, ('p, 'a) match_scheme) jsmap \<Rightarrow>
    (string, ('p, 'a) match_scheme) jsmap \<Rightarrow> bool" where
  "status_writes S games games' =
     (\<forall>k g'. map_of games' k = Some g' \<longrightarrow>
        (\<exists>g. map_of games k = Some g \<and> (status g' = status g \<or> status g' \<in> S)))"

definition created :: "(string, ('p, 'a) match_scheme) jsmap \<Rightarrow>
    (string, ('p, 'a) match_scheme) jsmap \<Rightarrow> bool" where
  "created games games' =
     (\<forall>k g'. map_of games' k = Some g' \<longrightarrow> map_of games k = Some g' \<or> status g' = Waiting)"

text \<open>The only two values \<open>game.direction\<close> ever takes.\<close>

definition direction_ok :: "uno_game \<Rightarrow> bool" where
  "direction_ok g = (direction g = 1 \<or> direction g = -1)"

text \<open>
  A race match that alice has won; a viewer; and a chess, a grid and a race match made by
  alice and joined by bob through the endpoints.
\<close>

definition won_ludo :: ludo_game where
  "won_ludo = \<lparr>game_id = ''ludo_1000'',
               players = [(human ''alice'')\<lparr>pieces := map (\<lambda>i. \<lparr>position = 56, piece_id = i\<rparr>) [0, 1, 2, 3],
                                            piecesInGoal := 4\<rparr>,
                          human ''bob''],
               status = Finished, winner = Some ''alice'', createdAt = 1000,
               l_maxPlayers = Some 2, l_currentPlayerIndex = 0, diceRolled = False,
               lastDiceRoll = None, l_board = Some 52, gameMode = Some ''multi''\<rparr>"

definition carol :: user where
  "carol = \<lparr>username = ''carol'', role = ''viewer''\<rparr>"

definition chess_pair :: "(string, chess_game) jsmap" where
  "chess_pair = fst (snd (chess_join (snd (chess_create [] alice 1000)) bob ''1000''))"

definition ttt_pair :: "(string, ttt_game) jsmap" where
  "ttt_pair = fst (snd (ttt_join (snd (ttt_create [] alice 1000)) bob ''ttt_1000''))"

definition ludo_pair :: "(string, ludo_game) jsmap" where
  "ludo_pair = fst (snd (ludo_start (fst (snd (ludo_join (snd (ludo_create [] alice 1000)) bob ''ludo_1000'')))
                   alice ''ludo_1000'' (Some 2) False None None))"

text \<open>
  A gamer who is in no match, and the card match alice has just created, alone in its
  container.
\<close>

definition dave :: user where
  "dave = \<lparr>username = ''dave'', role = ''gamer''\<rparr>"

definition fresh_uno_game :: uno_game where
  "fresh_uno_game = \<lparr>game_id = ''uno_1000'', players = [seat ''alice''], status = Waiting,
                     winner = None, createdAt = 1000, u_maxPlayers = 4, deck = [],
                     discardPile = [], u_currentPlayerIndex = 0, currentColor = [],
                     currentNumber = [], direction = 1\<rparr>"

definition fresh_uno :: "(string, uno_game) jsmap" where
  "fresh_uno = snd (uno_create [] alice 1000)"

section \<open>Properties of the card game\<close>

lemma createUNODeck_length_aux: "length createUNODeck = 108"
  by code_simp

lemma swap_length [simp]: "length (swap i j xs) = length xs"
  by (simp add: swap_def)

lemma swap_same [simp]: "swap i i xs = xs"
  by (simp add: swap_def)

lemma shuffle_from_length [simp]: "length (shuffle_from rnd n xs) = length xs"
  by (induction n arbitrary: xs) auto

lemma shuffleArray_length [simp]: "length (shuffleArray rnd xs) = length xs"
  by (simp add: shuffleArray_def)

lemma shuffle_from_id: "\<forall>i\<le>n. rnd i = i \<Longrightarrow> shuffle_from rnd n xs = xs"
  by (induction n arbitrary: xs) auto

lemma pop_length [simp]: "length (snd (pop xs)) = length xs - 1"
  by (simp add: pop_def)

lemma deal_hand_length:
  "deal_hand n d h = (d', h') \<Longrightarrow> length h' = length h + n \<and> length d' = length d - n"
  by (induction n arbitrary: d h) auto

lemma deal_lengths:
  "deal ps d = (ps', d') \<Longrightarrow>
     length ps' = length ps \<and>
     sum_list (map (\<lambda>p. length (hand p)) ps') = 7 * length ps \<and>
     length d' = length d - 7 * length ps"
proof (induction ps arbitrary: d ps' d')
  case Nil
  then show ?case by simp
next
  case (Cons p ps)
  obtain d1 h where dh: "deal_hand 7 d [] = (d1, h)" by (cases "deal_hand 7 d []")
  obtain qs d2 where rest: "deal ps d1 = (qs, d2)" by (cases "deal ps d1")
  from Cons.prems dh rest have eq: "ps' = p\<lparr>hand := h\<rparr> # qs" "d' = d2" by auto
  from deal_hand_length [OF dh] have h7: "length h = 7" "length d1 = length d - 7" by auto
  from Cons.IH [OF rest] h7 eq show ?case by auto
qed

lemma skipped_wilds_snoc:
  "skipped_wilds (d @ [c]) = (if ctype c = ''wild'' then Suc (skipped_wilds d) else 0)"
  by (simp add: skipped_wilds_def)

lemma firstCard_length:
  "firstCard d = Some (c, d2) \<Longrightarrow> length d2 + 1 + skipped_wilds d = length d \<and> ctype c \<noteq> ''wild''"
proof (induction d arbitrary: c d2 rule: rev_induct)
  case Nil
  then show ?case by (simp add: firstCard.simps)
next
  case (snoc x xs)
  show ?case
  proof (cases "ctype x = ''wild''")
    case True
    with snoc.prems have "firstCard xs = Some (c, d2)"
      by (subst (asm) firstCard.simps) simp
    from snoc.IH [OF this] True show ?thesis
      by (simp add: skipped_wilds_snoc)
  next
    case False
    with snoc.prems have "c = x" "d2 = xs"
      by (subst (asm) firstCard.simps, simp)+
    with False show ?thesis by (simp add: skipped_wilds_snoc)
  qed
qed

lemma cards_in_play_simps [simp]:
  "cards_in_play (g\<lparr>u_currentPlayerIndex := i\<rparr>) = cards_in_play g"
  "cards_in_play (g\<lparr>currentColor := s\<rparr>) = cards_in_play g"
  "cards_in_play (g\<lparr>currentNumber := s\<rparr>) = cards_in_play g"
  "cards_in_play (g\<lparr>direction := i\<rparr>) = cards_in_play g"
  "cards_in_play (g\<lparr>status := st\<rparr>) = cards_in_play g"
  "cards_in_play (g\<lparr>winner := w\<rparr>) = cards_in_play g"
  by (simp_all add: cards_in_play_def)

lemma initializeUNOGame_total:
  assumes "initializeUNOGame rnd g = Returned g'"
  shows "cards_in_play g' + skipped_wilds (snd (deal (players g) (shuffleArray rnd createUNODeck))) = 108"
proof -
  obtain ps d1 where dl: "deal (players g) (shuffleArray rnd createUNODeck) = (ps, d1)"
    by (cases "deal (players g) (shuffleArray rnd createUNODeck)")
  from assms dl obtain c d2 where fc: "firstCard d1 = Some (c, d2)"
    and g': "g' = g\<lparr>players := ps, deck := d2, discardPile := [c],
                         u_currentPlayerIndex := 0, currentColor := color c,
                         currentNumber := cvalue c, direction := 1\<rparr>"
    by (auto simp: initializeUNOGame_def split: option.splits)
  from deal_lengths [OF dl] have L: "sum_list (map (\<lambda>p. length (hand p)) ps) = 7 * length (players g)"
    "length d1 = 108 - 7 * length (players g)"
    by (simp_all add: createUNODeck_length_aux)
  from firstCard_length [OF fc] have F: "length d2 + 1 + skipped_wilds d1 = length d1" by simp
  from F L have "7 * length (players g) < 108" by arith
  with F L show ?thesis
    by (simp add: g' dl cards_in_play_def)
qed

lemma hands_update:
  "k < length ps \<Longrightarrow>
   sum_list (map (\<lambda>p. length (hand p)) (ps[k := q])) + length (hand (ps ! k))
     = sum_list (map (\<lambda>p. length (hand p)) ps) + length (hand q)"
proof (induction ps arbitrary: k)
  case Nil
  then show ?case by simp
next
  case (Cons p ps)
  then show ?case by (cases k) auto
qed

lemma forced_draw_total:
  "forced_draw n k g = r \<Longrightarrow> r = Returned g' \<or> r = Threw e g' \<Longrightarrow> cards_in_play g' = cards_in_play g"
proof (induction n arbitrary: g)
  case 0
  then show ?case by auto
next
  case (Suc n)
  show ?case
  proof (cases "deck g = []")
    case True
    with Suc.prems show ?thesis by auto
  next
    case False
    show ?thesis
    proof (cases "js_index (players g) k")
      case None
      with False Suc.prems show ?thesis by auto
    next
      case (Some p)
      then have k: "nat k < length (players g)" "p = players g ! nat k"
        by (auto simp: js_index_def split: if_splits)
      let ?g1 = "g\<lparr>players := (players g)[nat k := p\<lparr>hand := hand p @ [fst (pop (deck g))]\<rparr>],
                    deck := snd (pop (deck g))\<rparr>"
      from Suc.prems False Some have "forced_draw n k ?g1 = r" by simp
      from Suc.IH [OF this Suc.prems(2)] have "cards_in_play g' = cards_in_play ?g1" .
      also have "\<dots> = cards_in_play g"
        using hands_update [OF k(1), of "p\<lparr>hand := hand p @ [fst (pop (deck g))]\<rparr>"] False k(2)
        by (simp add: cards_in_play_def)
      finally show ?thesis .
    qed
  qed
qed

lemma forced_draw_Returned:
  "forced_draw n k g = Returned g' \<Longrightarrow> cards_in_play g' = cards_in_play g"
  using forced_draw_total [OF refl, of n k g g'] by simp

lemma forced_draw_Threw:
  "forced_draw n k g = Threw e g' \<Longrightarrow> cards_in_play g' = cards_in_play g"
  using forced_draw_total [OF refl, of n k g g' e] by simp

lemma processUNOCardEffect_Returned:
  "processUNOCardEffect g c = Returned g' \<Longrightarrow> cards_in_play g' = cards_in_play g"
  unfolding processUNOCardEffect_def Let_def
  by (auto split: if_splits outcome.splits dest: forced_draw_Returned)

lemma processUNOCardEffect_Threw:
  "processUNOCardEffect g c = Threw e g' \<Longrightarrow> cards_in_play g' = cards_in_play g"
  unfolding processUNOCardEffect_def Let_def
  by (auto split: if_splits outcome.splits dest: forced_draw_Threw)

lemma splice1_length: "i < length xs \<Longrightarrow> length (splice1 i xs) = length xs - 1"
  by (simp add: splice1_def)

lemma reshuffle_total:
  "deck g = [] \<Longrightarrow> cards_in_play (reshuffleUNODeck rnd g) = cards_in_play g"
  by (auto simp: reshuffleUNODeck_def cards_in_play_def)

lemma reshuffle_fields [simp]:
  "players (reshuffleUNODeck rnd g) = players g"
  "u_currentPlayerIndex (reshuffleUNODeck rnd g) = u_currentPlayerIndex g"
  "direction (reshuffleUNODeck rnd g) = direction g"
  "status (reshuffleUNODeck rnd g) = status g"
  by (simp_all add: reshuffleUNODeck_def)

lemma play_step_total:
  "k < length (players g) \<Longrightarrow> i < length (hand (players g ! k)) \<Longrightarrow>
   cards_in_play (g\<lparr>players := (players g)[k := (players g ! k)\<lparr>hand := splice1 i (hand (players g ! k))\<rparr>],
                    discardPile := discardPile g @ [c]\<rparr>) = cards_in_play g"
  using hands_update [of k "players g" "(players g ! k)\<lparr>hand := splice1 i (hand (players g ! k))\<rparr>"]
  by (simp add: cards_in_play_def splice1_length)

lemma draw_step_total:
  "ps = players g \<Longrightarrow> k < length ps \<Longrightarrow> deck g \<noteq> [] \<Longrightarrow>
   cards_in_play (g\<lparr>players := ps[k := (ps ! k)\<lparr>hand := hand (ps ! k) @ [x]\<rparr>],
                    deck := snd (pop (deck g))\<rparr>) = cards_in_play g"
  using hands_update [of k "players g" "(players g ! k)\<lparr>hand := hand (players g ! k) @ [x]\<rparr>"]
  by (simp add: cards_in_play_def)

lemma uno_play_card_total:
  assumes "uno_play_card games u gid cardIndex cc = (r, games', out)"
  shows "map_option cards_in_play (map_of games' x) = map_option cards_in_play (map_of games x)"
  using assms
  by (auto simp: uno_play_card_def Let_def update_conv' js_index_def play_step_total
           split: if_splits option.splits outcome.splits Option.bind_splits
           dest!: processUNOCardEffect_Returned processUNOCardEffect_Threw)

lemma uno_draw_card_total:
  assumes "uno_draw_card rnd games u gid = (r, games', out)"
  shows "map_option cards_in_play (map_of games' x) = map_option cards_in_play (map_of games x)"
  using assms
  by (auto simp: uno_draw_card_def Let_def update_conv' js_index_def draw_step_total reshuffle_total
           split: if_splits option.splits)

lemma deck_distribution:
  "(\<forall>c \<in> set colors.
      count_list createUNODeck (mk_card c ''0'' ''number'') = 1
      \<and> (\<forall>i \<in> set [1..<10]. count_list createUNODeck (mk_card c (toString i) ''number'') = 2)
      \<and> (\<forall>s \<in> set specials. count_list createUNODeck (mk_card c s ''special'') = 2))
   \<and> count_list createUNODeck (mk_card ''wild'' ''wild'' ''wild'') = 4
   \<and> count_list createUNODeck (mk_card ''wild'' ''wild4'' ''wild'') = 4"
  by code_simp

lemma forced_draw_empty: "deck g = [] \<Longrightarrow> forced_draw n k g = Returned g"
  by (cases n) simp_all

lemma toString_1000: "toString 1000 = ''1000''"
  by code_simp

lemma firstCard_snoc:
  "firstCard (ys @ [a]) = (if ctype a = ''wild'' then firstCard ys else Some (a, ys))"
  by (subst firstCard.simps) simp

lemma pop_snd: "snd (pop d) = butlast d"
  by (simp add: pop_def)

lemma deal_hand_deck: "fst (deal_hand n d h) = take (length d - n) d"
proof (induction n arbitrary: d h)
  case 0
  then show ?case by simp
next
  case (Suc n)
  have "fst (deal_hand (Suc n) d h) = take (length (butlast d) - n) (butlast d)"
    by (simp add: Suc pop_snd)
  also have "\<dots> = take (length d - Suc n) d"
    by (simp add: butlast_conv_take min_def)
  finally show ?case .
qed

lemma deal_deck: "snd (deal ps d) = take (length d - 7 * length ps) d"
proof (induction ps arbitrary: d)
  case Nil
  then show ?case by simp
next
  case (Cons p ps)
  have "snd (deal (p # ps) d) = snd (deal ps (fst (deal_hand 7 d [])))"
    by (simp add: split_beta Let_def del: deal_hand.simps)
  also have "\<dots> = take (length d - 7 * length (p # ps)) d"
    by (simp add: Cons deal_hand_deck min_def del: deal_hand.simps)
  finally show ?case .
qed

lemma shuffle_rnd0: "shuffleArray rnd0 createUNODeck = swap 107 93 createUNODeck"
proof -
  have "shuffleArray rnd0 createUNODeck = shuffle_from rnd0 (Suc 106) createUNODeck"
    by (simp add: shuffleArray_def createUNODeck_length_aux)
  also have "\<dots> = shuffle_from rnd0 106 (swap (Suc 106) (rnd0 (Suc 106) mod (Suc 106 + 1)) createUNODeck)"
    by (rule shuffle_from.simps)
  also have "\<dots> = shuffle_from rnd0 106 (swap 107 93 createUNODeck)"
    by (simp add: rnd0_def)
  also have "\<dots> = swap 107 93 createUNODeck"
    by (rule shuffle_from_id) (simp add: rnd0_def)
  finally show ?thesis .
qed

lemma shuffle_identity: "shuffleArray (\<lambda>i. i) xs = xs"
  by (simp add: shuffleArray_def shuffle_from_id)

lemma deck_cards:
  "ctype (createUNODeck ! 107) = ''wild''"
  "ctype (createUNODeck ! 93) \<noteq> ''wild''"
  "ctype (createUNODeck ! 92) \<noteq> ''wild''"
  by code_simp+

lemma take_two_more: "Suc n < length xs \<Longrightarrow> take (Suc (Suc n)) xs = take n xs @ [xs ! n, xs ! Suc n]"
  by (simp add: take_Suc_conv_app_nth)

lemma dealt_deck_rnd0:
  "snd (deal [p, q] (swap 107 93 createUNODeck))
     = take 92 createUNODeck @ [createUNODeck ! 92, createUNODeck ! 107]"
proof -
  let ?X = "swap 107 93 createUNODeck"
  have "snd (deal [p, q] ?X) = take (Suc (Suc 92)) ?X"
    by (simp add: deal_deck createUNODeck_length_aux del: deal.simps)
  also have "\<dots> = take 92 ?X @ [?X ! 92, ?X ! Suc 92]"
    by (rule take_two_more) (simp add: createUNODeck_length_aux)
  also have "\<dots> = take 92 createUNODeck @ [createUNODeck ! 92, createUNODeck ! 107]"
    by (simp add: swap_def createUNODeck_length_aux)
  finally show ?thesis .
qed

lemma dealt_deck_id:
  "snd (deal [p, q] createUNODeck) = take 93 createUNODeck @ [createUNODeck ! 93]"
proof -
  have "snd (deal [p, q] createUNODeck) = take (Suc 93) createUNODeck"
    by (simp add: deal_deck createUNODeck_length_aux del: deal.simps)
  also have "\<dots> = take 93 createUNODeck @ [createUNODeck ! 93]"
    by (rule take_Suc_conv_app_nth) (simp add: createUNODeck_length_aux)
  finally show ?thesis .
qed

lemma initializeUNOGame_Returned:
  "firstCard (snd (deal (players g) (shuffleArray rnd createUNODeck))) \<noteq> None \<Longrightarrow>
   \<exists>g'. initializeUNOGame rnd g = Returned g'"
  by (auto simp: initializeUNOGame_def split: prod.splits option.splits)

lemma deal_rnd0_outcome:
  assumes "players g = [p, q]"
  shows "\<exists>g'. initializeUNOGame rnd0 g = Returned g' \<and> cards_in_play g' = 107"
proof -
  have sk: "skipped_wilds (snd (deal (players g) (shuffleArray rnd0 createUNODeck))) = 1"
    by (simp add: assms shuffle_rnd0 dealt_deck_rnd0 skipped_wilds_def deck_cards del: deal.simps)
  have "firstCard (snd (deal (players g) (shuffleArray rnd0 createUNODeck))) \<noteq> None"
    using firstCard_snoc [of "take 92 createUNODeck @ [createUNODeck ! 92]" "createUNODeck ! 107"]
          firstCard_snoc [of "take 92 createUNODeck" "createUNODeck ! 92"]
    by (simp add: assms shuffle_rnd0 dealt_deck_rnd0 deck_cards del: deal.simps)
  then obtain g' where r: "initializeUNOGame rnd0 g = Returned g'"
    using initializeUNOGame_Returned by blast
  from initializeUNOGame_total [OF r] sk have "cards_in_play g' = 107" by simp
  with r show ?thesis by blast
qed

lemmas demo_defs = demo_games_def demo_game_def seat_def red_draw2_def blue_5_def green_1_def
  yellow_3_def red_7_def mk_card_def alice_def bob_def

lemmas uno_eval = uno_play_card_def uno_draw_card_def js_index_def canPlayUNOCard_def
  processUNOCardEffect_def step_index_def js_rem_def splice1_def pop_def reshuffleUNODeck_def
  shuffleArray_def swap_def emit_gaming_def cards_in_play_def Let_def
  gaming_access_required_def game_not_found_def not_your_turn_def

text \<open>
  C1 (as amended). A fresh deck has 108 cards: per colour one 0, two of each of 1 to 9 and
  two of each of skip, reverse and draw2, and four wild and four wild4 cards. A deal
  leaves deck, discard pile and hands with 108 cards less the wild cards popped while the
  first discard was looked for; every play, every draw, every effect of a played card and
  every reshuffle of an empty deck leaves that total as it was.
\<close>

theorem C1_deck_and_conservation:
  "length createUNODeck = 108
   \<and> (\<forall>c \<in> set colors.
        count_list createUNODeck (mk_card c ''0'' ''number'') = 1
        \<and> (\<forall>i \<in> set [1..<10]. count_list createUNODeck (mk_card c (toString i) ''number'') = 2)
        \<and> (\<forall>s \<in> set specials. count_list createUNODeck (mk_card c s ''special'') = 2))
   \<and> count_list createUNODeck (mk_card ''wild'' ''wild'' ''wild'') = 4
   \<and> count_list createUNODeck (mk_card ''wild'' ''wild4'' ''wild'') = 4
   \<and> (initializeUNOGame rnd g = Returned g' \<longrightarrow>
        cards_in_play g' + skipped_wilds (snd (deal (players g) (shuffleArray rnd createUNODeck))) = 108)
   \<and> (uno_play_card games u gid i cc = (r, games', out) \<longrightarrow>
        (\<forall>x. map_option cards_in_play (map_of games' x) = map_option cards_in_play (map_of games x)))
   \<and> (uno_draw_card rnd2 games2 u2 gid2 = (r2, games2', out2) \<longrightarrow>
        (\<forall>x. map_option cards_in_play (map_of games2' x) = map_option cards_in_play (map_of games2 x)))
   \<and> (deck h = [] \<longrightarrow> cards_in_play (reshuffleUNODeck rnd3 h) = cards_in_play h)
   \<and> (processUNOCardEffect h2 c2 = Returned h2' \<longrightarrow> cards_in_play h2' = cards_in_play h2)"
  using deck_distribution initializeUNOGame_total [of rnd g g']
    uno_play_card_total [of games u gid i cc r games' out]
    uno_draw_card_total [of rnd2 games2 u2 gid2 r2 games2' out2]
    reshuffle_total [of h rnd3] processUNOCardEffect_Returned [of h2 c2 h2']
  by (simp add: createUNODeck_length_aux)

theorem C1_witness:
  "(\<exists>g'. initializeUNOGame (\<lambda>i. i) two_seats = Returned g'
         \<and> cards_in_play g'
             + skipped_wilds (snd (deal (players two_seats) (shuffleArray (\<lambda>i. i) createUNODeck))) = 108)
   \<and> fst (uno_play_card demo_games alice ''g1'' 0 None) = Success
   \<and> map_option cards_in_play (map_of (fst (snd (uno_play_card demo_games alice ''g1'' 0 None))) ''g1'') = Some 5
   \<and> fst (uno_draw_card (\<lambda>i. i) demo_games alice ''g1'') = Success
   \<and> map_option cards_in_play (map_of (fst (snd (uno_draw_card (\<lambda>i. i) demo_games alice ''g1''))) ''g1'') = Some 5
   \<and> deck demo_game = [] \<and> cards_in_play (reshuffleUNODeck (\<lambda>i. i) demo_game) = 5
   \<and> (\<exists>h'. processUNOCardEffect demo_game red_draw2 = Returned h' \<and> cards_in_play h' = 5)"
proof -
  have "firstCard (snd (deal (players two_seats) (shuffleArray (\<lambda>i. i) createUNODeck))) \<noteq> None"
    using firstCard_snoc [of "take 93 createUNODeck" "createUNODeck ! 93"]
    by (simp add: two_seats_def shuffle_identity dealt_deck_id deck_cards del: deal.simps)
  then obtain g' where r: "initializeUNOGame (\<lambda>i. i) two_seats = Returned g'"
    using initializeUNOGame_Returned by blast
  obtain h' where e: "processUNOCardEffect demo_game red_draw2 = Returned h'"
    by (simp add: demo_defs uno_eval forced_draw_empty)
  have n: "cards_in_play demo_game = 5"
    by (simp add: demo_defs uno_eval)
  have p: "fst (uno_play_card demo_games alice ''g1'' 0 None) = Success"
    by (simp add: demo_defs uno_eval forced_draw_empty)
  have d: "fst (uno_draw_card (\<lambda>i. i) demo_games alice ''g1'') = Success"
    by (simp add: demo_defs uno_eval)
  have dk: "deck demo_game = []" by (simp add: demo_defs)
  note T = C1_deck_and_conservation [where rnd = "\<lambda>i. i" and g = two_seats and g' = g'
      and games = demo_games and u = alice and gid = "''g1''" and i = 0 and cc = None
      and r = "fst (uno_play_card demo_games alice ''g1'' 0 None)"
      and games' = "fst (snd (uno_play_card demo_games alice ''g1'' 0 None))"
      and out = "snd (snd (uno_play_card demo_games alice ''g1'' 0 None))"
      and ?rnd2.0 = "\<lambda>i. i" and ?games2.0 = demo_games and ?u2.0 = alice and ?gid2.0 = "''g1''"
      and ?r2.0 = "fst (uno_draw_card (\<lambda>i. i) demo_games alice ''g1'')"
      and games2' = "fst (snd (uno_draw_card (\<lambda>i. i) demo_games alice ''g1''))"
      and ?out2.0 = "snd (snd (uno_draw_card (\<lambda>i. i) demo_games alice ''g1''))"
      and h = demo_game and ?rnd3.0 = "\<lambda>i. i" and ?h2.0 = demo_game and ?c2.0 = red_draw2 and h2' = h']
  have m: "map_of demo_games ''g1'' = Some demo_game" by (simp add: demo_games_def)
  have t1: "cards_in_play g'
      + skipped_wilds (snd (deal (players two_seats) (shuffleArray (\<lambda>i. i) createUNODeck))) = 108"
    using T r by simp
  have t2: "map_option cards_in_play
      (map_of (fst (snd (uno_play_card demo_games alice ''g1'' 0 None))) ''g1'') = Some 5"
    using T m n by simp
  have t3: "map_option cards_in_play
      (map_of (fst (snd (uno_draw_card (\<lambda>i. i) demo_games alice ''g1''))) ''g1'') = Some 5"
    using T m n by simp
  have t4: "cards_in_play (reshuffleUNODeck (\<lambda>i. i) demo_game) = 5"
    using T dk n by simp
  have t5: "cards_in_play h' = 5"
    using T e n by simp
  from r e t1 t2 t3 t4 t5 p d dk show ?thesis by blast
qed


text \<open>
  The total is not always 108: when the card on top of the dealt deck is wild, the deal
  of a two-player match ends with 107 cards.
\<close>

theorem C1_counterexample:
  "map_option cards_in_play
     (map_of (fst (snd (uno_join rnd0 (snd (uno_create [] alice 1000)) bob ''uno_1000''))) ''uno_1000'')
   = Some 107"
proof -
  let ?g0 = "\<lparr>game_id = ''uno_1000'',
              players = [\<lparr>name = ''alice'', socketId = None, hand = [], saidUNO = False\<rparr>],
              status = Waiting, winner = None, createdAt = 1000,
              u_maxPlayers = 4, deck = [], discardPile = [],
              u_currentPlayerIndex = 0, currentColor = '''', currentNumber = '''',
              direction = 1\<rparr>"
  let ?g1 = "?g0\<lparr>players := players ?g0 @ [\<lparr>name = ''bob'', socketId = None, hand = [], saidUNO = False\<rparr>],
                 status := Playing\<rparr>"
  have c: "snd (uno_create [] alice 1000) = [(''uno_1000'', ?g0)]"
    by (simp add: uno_create_def alice_def toString_1000 Let_def)
  obtain g' where r: "initializeUNOGame rnd0 ?g1 = Returned g'" and n: "cards_in_play g' = 107"
    using deal_rnd0_outcome [of ?g1] by auto
  have "uno_join rnd0 [(''uno_1000'', ?g0)] bob ''uno_1000''
          = (Success, [(''uno_1000'', g')], [emit_gaming ''uno-game-updated'' ''uno_1000'' g'])"
    using r by (simp add: uno_join_def bob_def Let_def)
  with c n show ?thesis by simp
qed

section \<open>Properties of the connection handler\<close>

text \<open>
  C9. When counting a new connection takes the global counter above the ceiling of 300,
  the socket is sent \<open>server-overload\<close> with a retry hint of 30000 ms and is disconnected
  at once, no handler is registered on it, and the global counter and the counter of its
  class are back at their values from before the connection.
\<close>

theorem C9_overload_rollback:
  "activeConnections w + 1 > maxConnections \<Longrightarrow>
     world_after (on_connection w s) = w
     \<and> activeConnections (world_after (on_connection w s)) = activeConnections w
     \<and> homepageConnections (world_after (on_connection w s)) = homepageConnections w
     \<and> authenticatedConnections (world_after (on_connection w s)) = authenticatedConnections w
     \<and> sent (on_connection w s)
         = [ServerOverload ''Server at capacity, please try again in a few moments'' 30000]
     \<and> disconnected (on_connection w s)
     \<and> \<not> registered (on_connection w s)"
  by (simp add: on_connection_def Let_def)

theorem C9_witness:
  "activeConnections full_world + 1 > maxConnections
   \<and> world_after (on_connection full_world visitor_socket) = full_world
   \<and> homepageConnections (world_after (on_connection full_world visitor_socket)) = 180
   \<and> authenticatedConnections (world_after (on_connection full_world alice_socket)) = 120
   \<and> sent (on_connection full_world alice_socket)
       = [ServerOverload ''Server at capacity, please try again in a few moments'' 30000]
   \<and> disconnected (on_connection full_world alice_socket)"
proof -
  have h: "activeConnections full_world + 1 > maxConnections"
    by (simp add: full_world_def world0_def maxConnections_def)
  from C9_overload_rollback [OF h, of visitor_socket] C9_overload_rollback [OF h, of alice_socket] h
  show ?thesis by (simp add: full_world_def world0_def)
qed

section \<open>Properties of the card endpoints\<close>

text \<open>
  C10. The index check of the play endpoint turns away only indexes at or beyond the
  length of the hand. A negative index passes it, the lookup in the hand yields no card,
  and the request ends without the play: the response is not a success (it is the
  uncaught \<open>TypeError\<close> when the request got as far as the lookup), no match is changed
  and nothing is broadcast.
\<close>

theorem C10_negative_card_index:
  "cardIndex < 0 \<Longrightarrow>
     js_index (h :: card option list) cardIndex = None
     \<and> fst (uno_play_card games u gid cardIndex cc) \<noteq> Success
     \<and> fst (uno_play_card games u gid cardIndex cc) \<noteq> Failure 400 ''Invalid card index''
     \<and> fst (snd (uno_play_card games u gid cardIndex cc)) = games
     \<and> snd (snd (uno_play_card games u gid cardIndex cc)) = []
     \<and> (role u = ''gamer'' \<longrightarrow> map_of games gid = Some g \<longrightarrow>
          js_index (players g) (u_currentPlayerIndex g) = Some p \<longrightarrow> name p = username u \<longrightarrow>
          fst (uno_play_card games u gid cardIndex cc) = Uncaught TypeError)"
  by (auto simp: uno_play_card_def js_index_def gaming_access_required_def game_not_found_def
        not_your_turn_def split: option.splits)

theorem C10_witness:
  "(-1 :: int) < 0
   \<and> js_index [Some red_draw2, Some blue_5] (-1) = None
   \<and> uno_play_card demo_games alice ''g1'' (-1) None = (Uncaught TypeError, demo_games, [])"
proof -
  have m: "map_of demo_games ''g1'' = Some demo_game"
    by (simp add: demo_games_def)
  have p: "js_index (players demo_game) (u_currentPlayerIndex demo_game)
             = Some ((seat ''alice'')\<lparr>hand := [Some red_draw2, Some blue_5]\<rparr>)"
    by (simp add: demo_game_def js_index_def)
  have n: "name ((seat ''alice'')\<lparr>hand := [Some red_draw2, Some blue_5]\<rparr>) = username alice"
    by (simp add: seat_def alice_def)
  have r: "role alice = ''gamer''" by (simp add: alice_def)
  from C10_negative_card_index [of "-1" "[Some red_draw2, Some blue_5]" demo_games alice "''g1''" None
      demo_game "(seat ''alice'')\<lparr>hand := [Some red_draw2, Some blue_5]\<rparr>"] m p n r
  show ?thesis by (simp add: prod_eq_iff)
qed

section \<open>Properties of the caches\<close>

lemma update_absent: "k \<notin> fst ` set al \<Longrightarrow> AList.update k v al = al @ [(k, v)]"
  by (induction al) auto

lemma update_length:
  "length (AList.update k v al) = (if k \<in> fst ` set al then length al else Suc (length al))"
  by (induction al) auto

lemma delete_length_le: "length (AList.delete k al) \<le> length al"
  by (induction al) auto

lemma delete_shorter: "k \<in> fst ` set al \<Longrightarrow> length (AList.delete k al) < length al"
proof (induction al)
  case Nil
  then show ?case by simp
next
  case (Cons p al)
  show ?case
  proof (cases "fst p = k")
    case True
    with delete_length_le [of k al] show ?thesis by (simp add: less_Suc_eq_le)
  next
    case False
    with Cons.prems have "k \<in> fst ` set al" by auto
    from Cons.IH [OF this] False show ?thesis by simp
  qed
qed

lemma cache_state_inv:
  "cache_state bound ttl c \<Longrightarrow> distinct (map fst c) \<and> length c \<le> bound"
proof (induction rule: cache_state.induct)
  case cache_empty
  then show ?case by simp
next
  case (cache_write c k v now)
  let ?c1 = "AList.update k \<lparr>data = v, timestamp = now\<rparr> c"
  have d: "distinct (map fst ?c1)" using cache_write.IH by (simp add: distinct_update)
  have l: "length ?c1 \<le> Suc (length c)" by (simp add: update_length)
  show ?case
  proof (cases "length ?c1 > bound")
    case True
    then have "?c1 \<noteq> []" by auto
    then have "fst (hd ?c1) \<in> fst ` set ?c1" by (cases ?c1) auto
    from delete_shorter [OF this] l cache_write.IH True d show ?thesis
      by (simp add: cache_set_def Let_def distinct_delete)
  next
    case False
    with d show ?thesis by (simp add: cache_set_def Let_def)
  qed
next
  case (cache_invalidate c k)
  then show ?case
    using delete_length_le [of k c] by (simp add: distinct_delete)
next
  case (cache_sweep c now)
  then show ?case
    by (auto simp: sweep_cache_def distinct_map_filter intro: le_trans [OF length_filter_le])
qed

lemma cache_set_lookup:
  assumes "cache_state bound ttl c" and "1 \<le> bound"
  shows "map_of (cache_set bound c k v now) k = Some \<lparr>data = v, timestamp = now\<rparr>"
proof -
  let ?e = "\<lparr>data = v, timestamp = now\<rparr>"
  let ?c1 = "AList.update k ?e c"
  from cache_state_inv [OF assms(1)] have inv: "distinct (map fst c)" "length c \<le> bound" by auto
  have look: "map_of ?c1 k = Some ?e" by (simp add: update_conv')
  show ?thesis
  proof (cases "length ?c1 > bound")
    case False
    with look show ?thesis by (simp add: cache_set_def Let_def)
  next
    case True
    with inv have absent: "k \<notin> fst ` set c" by (auto simp: update_length split: if_splits)
    then have c1: "?c1 = c @ [(k, ?e)]" by (rule update_absent)
    from True inv assms(2) absent have ne: "c \<noteq> []" by (auto simp: update_length)
    then have "hd ?c1 = hd c" by (simp add: c1)
    with ne have mem: "fst (hd ?c1) \<in> fst ` set c" by simp
    have "fst (hd ?c1) \<noteq> k"
    proof
      assume "fst (hd ?c1) = k"
      with mem have "k \<in> fst ` set c" by simp
      with absent show False by contradiction
    qed
    with True look show ?thesis by (simp add: cache_set_def Let_def delete_conv')
  qed
qed

lemma cache_get_set:
  assumes "cache_state bound ttl c" and "1 \<le> bound"
  shows "fst (cache_get ttl' (cache_set bound c k v now) k now')
           = (if now' - now < ttl' then Some v else None)"
  using cache_set_lookup [OF assms, of k v now] by (simp add: cache_get_def)

text \<open>
  C8. In both tiers, on every cache the server can hold, a read of a key after a write of
  it returns the written value as long as less than the tier's duration (60 s, 30 s for the
  homepage tier) has passed, and nothing afterwards; a read returns the stored value
  exactly when \<open>now - timestamp\<close> is below the duration and is a miss otherwise; and a
  read leaves the cache as it was.
\<close>

theorem C8_cache_read_write:
  "(cache_state 50 CACHE_DURATION c \<longrightarrow>
      fst (getCachedData (setCachedData c k v now) k now')
        = (if now' - now < 60000 then Some v else None))
   \<and> (cache_state 20 HOMEPAGE_CACHE_DURATION c \<longrightarrow>
      fst (getHomepageCachedData (setHomepageCachedData c k v now) k now')
        = (if now' - now < 30000 then Some v else None))
   \<and> fst (getCachedData d k t)
        = (case map_of d k of None \<Rightarrow> None
           | Some e \<Rightarrow> if t - timestamp e < 60000 then Some (data e) else None)
   \<and> fst (getHomepageCachedData d k t)
        = (case map_of d k of None \<Rightarrow> None
           | Some e \<Rightarrow> if t - timestamp e < 30000 then Some (data e) else None)
   \<and> snd (getCachedData d k t) = d
   \<and> snd (getHomepageCachedData d k t) = d"
  using cache_get_set [of 50 CACHE_DURATION c CACHE_DURATION k v now now']
        cache_get_set [of 20 HOMEPAGE_CACHE_DURATION c HOMEPAGE_CACHE_DURATION k v now now']
  by (auto simp: getCachedData_def setCachedData_def getHomepageCachedData_def
        setHomepageCachedData_def cache_get_def CACHE_DURATION_def HOMEPAGE_CACHE_DURATION_def
        split: option.splits)

theorem C8_witness:
  "cache_state 50 CACHE_DURATION ([] :: (string, nat cache_entry) jsmap)
   \<and> cache_state 20 HOMEPAGE_CACHE_DURATION ([] :: (string, nat cache_entry) jsmap)
   \<and> fst (getCachedData (setCachedData [] ''supply-2024'' (7::nat) 1000) ''supply-2024'' 1000) = Some 7
   \<and> fst (getCachedData (setCachedData [] ''supply-2024'' (7::nat) 1000) ''supply-2024'' 61000) = None
   \<and> fst (getHomepageCachedData (setHomepageCachedData [] ''public-supply-2024'' (7::nat) 1000)
            ''public-supply-2024'' 30999) = Some 7
   \<and> fst (getHomepageCachedData (setHomepageCachedData [] ''public-supply-2024'' (7::nat) 1000)
            ''public-supply-2024'' 31000) = None"
proof -
  have a: "cache_state 50 CACHE_DURATION ([] :: (string, nat cache_entry) jsmap)"
    by (rule cache_empty)
  have b: "cache_state 20 HOMEPAGE_CACHE_DURATION ([] :: (string, nat cache_entry) jsmap)"
    by (rule cache_empty)
  have g1: "fst (getCachedData (setCachedData [] ''supply-2024'' (7::nat) 1000) ''supply-2024'' 1000) = Some 7"
    using a C8_cache_read_write [of "[]" "''supply-2024''" "7::nat" 1000 1000 "[] :: (string, nat cache_entry) jsmap" 0] by simp
  have g2: "fst (getCachedData (setCachedData [] ''supply-2024'' (7::nat) 1000) ''supply-2024'' 61000) = None"
    using a C8_cache_read_write [of "[]" "''supply-2024''" "7::nat" 1000 61000 "[] :: (string, nat cache_entry) jsmap" 0] by simp
  have g3: "fst (getHomepageCachedData (setHomepageCachedData [] ''public-supply-2024'' (7::nat) 1000)
            ''public-supply-2024'' 30999) = Some 7"
    using b C8_cache_read_write [of "[]" "''public-supply-2024''" "7::nat" 1000 30999 "[] :: (string, nat cache_entry) jsmap" 0] by simp
  have g4: "fst (getHomepageCachedData (setHomepageCachedData [] ''public-supply-2024'' (7::nat) 1000)
            ''public-supply-2024'' 31000) = None"
    using b C8_cache_read_write [of "[]" "''public-supply-2024''" "7::nat" 1000 31000 "[] :: (string, nat cache_entry) jsmap" 0] by simp
  from a b g1 g2 g3 g4 show ?thesis by blast
qed

section \<open>Forced draws on an empty deck\<close>

text \<open>
  C7, the half the code does not do. With an empty deck the effect of a draw-two or
  draw-four card draws nothing and reshuffles nothing: only the turn pointer moves, also
  when the discard pile holds cards that a reshuffle would turn into a deck.
\<close>

theorem C7_forced_draw_without_reshuffle:
  "deck g = [] \<Longrightarrow> cvalue c = ''draw2'' \<or> cvalue c = ''wild4'' \<Longrightarrow>
     processUNOCardEffect g c
       = Returned (g\<lparr>u_currentPlayerIndex := step_index g (step_index g (u_currentPlayerIndex g))\<rparr>)"
  by (auto simp: processUNOCardEffect_def Let_def forced_draw_empty)

theorem C7_witness:
  "deck demo_game = [] \<and> cvalue red_draw2 = ''draw2''
   \<and> processUNOCardEffect demo_game red_draw2 = Returned (demo_game\<lparr>u_currentPlayerIndex := 0\<rparr>)
   \<and> length (discardPile demo_game) = 2
   \<and> deck (reshuffleUNODeck (\<lambda>i. i) demo_game) = [yellow_3]"
proof -
  have d: "deck demo_game = []" by (simp add: demo_game_def)
  have c: "cvalue red_draw2 = ''draw2'' \<or> cvalue red_draw2 = ''wild4''"
    by (simp add: red_draw2_def mk_card_def)
  have i: "step_index demo_game (step_index demo_game (u_currentPlayerIndex demo_game)) = 0"
    by (simp add: demo_game_def step_index_def js_rem_def)
  have r: "deck (reshuffleUNODeck (\<lambda>i. i) demo_game) = [yellow_3]"
    by (simp add: demo_game_def reshuffleUNODeck_def shuffleArray_def)
  from C7_forced_draw_without_reshuffle [OF d c] d c i r show ?thesis
    by (simp add: demo_game_def red_draw2_def mk_card_def)
qed

section \<open>Properties of the session bridge\<close>

lemma cookie_percent: "parse_cookies (lit ''sid=%'') (lit ''sid'') = Some [37]"
  by (simp add: parse_cookies_def lit_def trim_def is_space_def)

lemma decode_percent: "decodeURIComponent [37] = Inl URIError"
  by (simp add: decodeURIComponent_def)

text \<open>
  C5, where the code leaves it. A \<open>sid\<close> cookie whose value is not a well-formed
  percent-encoding makes \<open>decodeURIComponent\<close> raise: the middleware ends with that
  \<open>URIError\<close> and has called \<open>next\<close> neither with a typed reason nor without
  one, whatever the session store holds.
\<close>

theorem C5_malformed_escape_raises:
  "session_bridge store (Some (lit ''sid=%'')) = Raised URIError"
  using cookie_percent decode_percent
  by (simp add: session_bridge_def) (simp add: lit_def)

text \<open>
  Apart from that case the middleware does what is said of it: it admits exactly the
  handshakes whose decoded \<open>sid\<close> cookie starts with \<open>s:\<close> and names a stored session
  with a user, attaching that user, and every other handshake gets one of five reasons.
\<close>

lemma decode_tokens_error: "decode_tokens ts = Inl e \<Longrightarrow> e = URIError"
  by (induction ts arbitrary: e rule: decode_tokens.induct)
     (auto split: sum.splits if_splits option.splits)

lemma decode_empty: "decodeURIComponent [] = Inr []"
  by (simp add: decodeURIComponent_def)

lemma session_bridge_outcomes:
  "(\<exists>usr. session_bridge store ch = Admitted usr)
   \<or> session_bridge store ch \<in> Rejected ` {''Authentication required: No cookies found'',
         ''Authentication required: Session cookie missing'',
         ''Authentication required: Invalid session cookie format'',
         ''Authentication required: Invalid session ID'',
         ''Authentication required: Session not found or expired''}
   \<or> session_bridge store ch = Raised URIError"
  by (auto simp: session_bridge_def Let_def decodeURIComponent_def
        split: option.splits sum.splits store_reply.splits dest: decode_tokens_error)

lemma session_bridge_admits:
  "session_bridge store ch = Admitted usr \<longleftrightarrow>
     (\<exists>h raw sidCookie.
        ch = Some h \<and> parse_cookies h (lit ''sid'') = Some raw \<and>
        decodeURIComponent raw = Inr sidCookie \<and> take 2 sidCookie = lit ''s:'' \<and>
        hd (split_on 46 (drop 2 sidCookie)) \<noteq> [] \<and>
        store (hd (split_on 46 (drop 2 sidCookie))) = Session (Some usr))"
proof -
  have e: "parse_cookies [] (lit ''sid'') = None"
    by (simp add: parse_cookies_def)
  have l: "lit ''s:'' \<noteq> []" by (simp add: lit_def)
  show ?thesis
    by (auto simp: session_bridge_def Let_def e l decode_empty
          split: option.splits sum.splits store_reply.splits if_splits)
qed

section \<open>Properties of disconnects, timers and the sweep\<close>

lemma abandon_none:
  "list_all (\<lambda>(k, g). \<not> test g) games \<Longrightarrow> abandon c test games = (games, [])"
  by (induction games) (auto simp: abandon_def)

lemma has_socket_unbound: "unbound g \<Longrightarrow> \<not> has_socket s g"
  by (auto simp: unbound_def has_socket_def list_all_iff)

lemma on_disconnect_unbound:
  assumes "sessionId s = None"
    and "list_all (\<lambda>(k, g). unbound g) (ludoGames w)"
    and "list_all (\<lambda>(k, g). unbound g) (ticTacToeGames w)"
    and "list_all (\<lambda>(k, g). unbound g) (unoGames w)"
  shows "chessGames (on_disconnect w s) = chessGames w"
    and "ludoGames (on_disconnect w s) = ludoGames w"
    and "ticTacToeGames (on_disconnect w s) = ticTacToeGames w"
    and "unoGames (on_disconnect w s) = unoGames w"
    and "timers (on_disconnect w s) = timers w"
proof -
  have c: "abandon ChessGames (chess_has s) (chessGames w) = (chessGames w, [])"
    by (rule abandon_none) (simp add: chess_has_def assms(1) list_all_iff split_beta)
  have l: "abandon LudoGames (has_socket s) (ludoGames w) = (ludoGames w, [])"
    using assms(2) by (intro abandon_none) (auto simp: list_all_iff has_socket_unbound)
  have t: "abandon TicTacToeGames (has_socket s) (ticTacToeGames w) = (ticTacToeGames w, [])"
    using assms(3) by (intro abandon_none) (auto simp: list_all_iff has_socket_unbound)
  have u: "abandon UnoGames (has_socket s) (unoGames w) = (unoGames w, [])"
    using assms(4) by (intro abandon_none) (auto simp: list_all_iff has_socket_unbound)
  show "chessGames (on_disconnect w s) = chessGames w"
    and "ludoGames (on_disconnect w s) = ludoGames w"
    and "ticTacToeGames (on_disconnect w s) = ticTacToeGames w"
    and "unoGames (on_disconnect w s) = unoGames w"
    and "timers (on_disconnect w s) = timers w"
    by (simp_all add: on_disconnect_def Let_def c l t u)
qed

text \<open>
  C2, where the code leaves it. Alice, signed in, has created a match of each variant and
  her connection closes. The disconnect handler looks for \<open>socket.sessionId\<close> among the
  chess players and for \<open>socket.id\<close> in the \<open>socketId\<close> of the other players; no match
  holds either, so none becomes abandoned and no deletion is scheduled: only the two
  counters change.
\<close>

theorem C2_disconnect_abandons_nothing:
  "on_disconnect alice_world alice_socket
     = alice_world\<lparr>activeConnections := 0, authenticatedConnections := 0\<rparr>"
  by (simp add: on_disconnect_def alice_world_def alice_socket_def alice_def world0_def
        chess_create_def ludo_create_def ttt_create_def uno_create_def toString_1000 Let_def
        isHomepageUser_def abandon_def chess_has_def has_socket_def human_def)

text \<open>
  The same holds for every world whose players were all made by the endpoints
  (\<open>on_disconnect_unbound\<close> above): a socket without \<open>sessionId\<close> abandons nothing.
\<close>

lemma map_of_filter_distinct:
  "distinct (map fst xs) \<Longrightarrow>
   map_of (filter (\<lambda>(k, v). P v) xs) k
     = (case map_of xs k of None \<Rightarrow> None | Some v \<Rightarrow> if P v then Some v else None)"
proof (induction xs)
  case Nil
  then show ?case by simp
next
  case (Cons x xs)
  obtain a b where x: "x = (a, b)" by (cases x)
  have "a \<notin> fst ` set xs" using Cons.prems x by auto
  then have none: "map_of xs a = None" by (simp add: map_of_eq_None_iff)
  from \<open>a \<notin> fst ` set xs\<close> have "a \<notin> fst ` set (filter (\<lambda>(k, v). P v) xs)" by auto
  then have "map_of (filter (\<lambda>(k, v). P v) xs) a = None"
    by (metis map_of_eq_None_iff)
  with Cons x none show ?case by (auto split: option.splits)
qed

lemma sweep_games_lookup:
  "distinct (map fst games) \<Longrightarrow>
   map_of (sweep_games now games) k
     = (case map_of games k of None \<Rightarrow> None
        | Some g \<Rightarrow> if status g = Abandoned \<and> int (createdAt g) < now - 300000 then None else Some g)"
  unfolding sweep_games_def
  by (subst map_of_filter_distinct) (auto split: option.splits)

text \<open>
  What a deletion task and the periodic sweep do to the containers. A task removes the
  entry under its key and reads nothing of the match; the sweep removes an entry exactly
  when the match is abandoned and was created more than five minutes earlier. (By
  \<open>on_disconnect_unbound\<close> the disconnect handler creates no task in a world whose players
  were all made by the endpoints.)
\<close>

lemma timer_fire_lookup:
  "map_of (chessGames (timer_fire t w)) k
     = (if target t = ChessGames \<and> k = key t then None else map_of (chessGames w) k)"
  "map_of (ludoGames (timer_fire t w)) k
     = (if target t = LudoGames \<and> k = key t then None else map_of (ludoGames w) k)"
  "map_of (ticTacToeGames (timer_fire t w)) k
     = (if target t = TicTacToeGames \<and> k = key t then None else map_of (ticTacToeGames w) k)"
  "map_of (unoGames (timer_fire t w)) k
     = (if target t = UnoGames \<and> k = key t then None else map_of (unoGames w) k)"
  by (cases "target t"; simp add: timer_fire_def delete_conv')+

lemma sweep_lookup:
  "distinct (map fst (chessGames w)) \<Longrightarrow>
   map_of (chessGames (sweep now w)) k
     = (case map_of (chessGames w) k of None \<Rightarrow> None
        | Some g \<Rightarrow> if status g = Abandoned \<and> int (createdAt g) < now - 300000 then None else Some g)"
  "distinct (map fst (ludoGames w)) \<Longrightarrow>
   map_of (ludoGames (sweep now w)) k
     = (case map_of (ludoGames w) k of None \<Rightarrow> None
        | Some g \<Rightarrow> if status g = Abandoned \<and> int (createdAt g) < now - 300000 then None else Some g)"
  "distinct (map fst (ticTacToeGames w)) \<Longrightarrow>
   map_of (ticTacToeGames (sweep now w)) k
     = (case map_of (ticTacToeGames w) k of None \<Rightarrow> None
        | Some g \<Rightarrow> if status g = Abandoned \<and> int (createdAt g) < now - 300000 then None else Some g)"
  "distinct (map fst (unoGames w)) \<Longrightarrow>
   map_of (unoGames (sweep now w)) k
     = (case map_of (unoGames w) k of None \<Rightarrow> None
        | Some g \<Rightarrow> if status g = Abandoned \<and> int (createdAt g) < now - 300000 then None else Some g)"
  by (simp_all add: sweep_def sweep_games_lookup)

section \<open>Properties of the action endpoints\<close>

lemmas failures = gaming_access_required_def game_not_found_def not_your_turn_def

lemma chess_move_contract:
  "act_contract ''move-made'' gid games (chess_move games u gid from_sq to_sq now)"
  by (auto simp: act_contract_def chess_move_def failures Let_def update_conv' emit_gaming_def
        isCheckmate_def isStalemate_def split: option.splits sum.splits)

lemma ttt_move_contract:
  "act_contract ''tictactoe-move-made'' gid games (ttt_move games u gid pos)"
  by (auto simp: act_contract_def ttt_move_def failures Let_def update_conv' emit_gaming_def
        split: option.splits)

lemma ludo_roll_contract:
  "act_contract ''ludo-dice-rolled'' gid games (ludo_roll die games u gid)"
  by (auto simp: act_contract_def ludo_roll_def failures Let_def update_conv' emit_gaming_def
        split: option.splits)

lemma uno_draw_contract:
  "act_contract ''uno-card-drawn'' gid games (uno_draw_card rnd games u gid)"
  by (auto simp: act_contract_def uno_draw_card_def failures Let_def update_conv' emit_gaming_def
        split: option.splits)

lemma js_rem_range: "0 \<le> a \<Longrightarrow> 0 < n \<Longrightarrow> 0 \<le> js_rem a n \<and> js_rem a n < n"
  by (cases "a = 0") (auto simp: js_rem_def)

lemma step_index_range:
  "direction g = 1 \<or> direction g = -1 \<Longrightarrow> 0 \<le> i \<Longrightarrow> i < int (length (players g)) \<Longrightarrow>
   0 \<le> step_index g i \<and> step_index g i < int (length (players g))"
  unfolding step_index_def by (rule js_rem_range) auto

lemma forced_draw_fields:
  "forced_draw n k g = Returned g' \<or> forced_draw n k g = Threw e g' \<Longrightarrow>
   length (players g') = length (players g) \<and> status g' = status g \<and> direction g' = direction g
   \<and> u_currentPlayerIndex g' = u_currentPlayerIndex g"
proof (induction n arbitrary: g)
  case 0
  then show ?case by auto
next
  case (Suc n)
  show ?case
  proof (cases "deck g = [] \<or> js_index (players g) k = None")
    case True
    with Suc.prems show ?thesis by (auto split: if_splits)
  next
    case False
    then obtain p where p: "js_index (players g) k = Some p" by auto
    let ?g1 = "g\<lparr>players := (players g)[nat k := p\<lparr>hand := hand p @ [fst (pop (deck g))]\<rparr>],
                    deck := snd (pop (deck g))\<rparr>"
    from Suc.prems False p
    have "forced_draw n k ?g1 = Returned g' \<or> forced_draw n k ?g1 = Threw e g'" by simp
    from Suc.IH [OF this] show ?thesis by simp
  qed
qed

lemma forced_draw_returns:
  "js_index (players g) k \<noteq> None \<Longrightarrow> \<exists>g'. forced_draw n k g = Returned g'"
proof (induction n arbitrary: g)
  case 0
  then show ?case by simp
next
  case (Suc n)
  show ?case
  proof (cases "deck g = []")
    case True
    then show ?thesis by simp
  next
    case False
    from Suc.prems obtain p where p: "js_index (players g) k = Some p" by auto
    let ?g1 = "g\<lparr>players := (players g)[nat k := p\<lparr>hand := hand p @ [fst (pop (deck g))]\<rparr>],
                    deck := snd (pop (deck g))\<rparr>"
    from p have "js_index (players ?g1) k \<noteq> None"
      by (auto simp: js_index_def split: if_splits)
    from Suc.IH [OF this] False p show ?thesis by simp
  qed
qed

lemma effect_returns:
  assumes "direction g = 1 \<or> direction g = -1"
    and "js_index (players g) (u_currentPlayerIndex g) \<noteq> None"
  shows "\<exists>g'. processUNOCardEffect g c = Returned g'"
proof -
  from assms(2) have i: "0 \<le> u_currentPlayerIndex g" "u_currentPlayerIndex g < int (length (players g))"
    by (auto simp: js_index_def split: if_splits)
  from step_index_range [OF assms(1) i]
  have "js_index (players g) (step_index g (u_currentPlayerIndex g)) \<noteq> None"
    by (simp add: js_index_def)
  from forced_draw_returns [OF this, of 2] forced_draw_returns [OF this, of 4]
  show ?thesis
    by (auto simp: processUNOCardEffect_def Let_def)
qed

lemma uno_play_contract:
  assumes "\<forall>g. map_of games gid = Some g \<longrightarrow> direction g = 1 \<or> direction g = -1"
  shows "act_contract ''uno-card-played'' gid games (uno_play_card games u gid i cc)"
proof (cases "map_of games gid")
  case None
  then show ?thesis by (simp add: act_contract_def uno_play_card_def failures)
next
  case (Some g)
  with assms have d: "direction g = 1 \<or> direction g = -1" by simp
  show ?thesis
  proof (cases "js_index (players g) (u_currentPlayerIndex g)")
    case None
    with Some show ?thesis by (simp add: act_contract_def uno_play_card_def failures)
  next
    case cp: (Some currentPlayer)
    show ?thesis
    proof (cases "Option.bind (js_index (hand currentPlayer) i) (\<lambda>x. x)")
      case None
      with Some cp show ?thesis by (simp add: act_contract_def uno_play_card_def failures)
    next
      case c: (Some c)
      let ?g2 = "g\<lparr>players := (players g)
                       [nat (u_currentPlayerIndex g) :=
                          currentPlayer\<lparr>hand := splice1 (nat i) (hand currentPlayer)\<rparr>],
                     discardPile := discardPile g @ [c],
                     currentColor :=
                       (if ctype c = ''wild''
                        then (case cc of None \<Rightarrow> ''red'' | Some s \<Rightarrow> if s = [] then ''red'' else s)
                        else color c),
                     currentNumber := cvalue c\<rparr>"
      from cp have "js_index (players ?g2) (u_currentPlayerIndex ?g2) \<noteq> None"
        by (auto simp: js_index_def split: if_splits)
      moreover from d have "direction ?g2 = 1 \<or> direction ?g2 = -1" by simp
      ultimately obtain g3 where "processUNOCardEffect ?g2 c = Returned g3"
        using effect_returns by blast
      with Some cp c show ?thesis
        by (simp add: act_contract_def uno_play_card_def failures Let_def update_conv'
              emit_gaming_def)
    qed
  qed
qed

lemma list_all_update:
  "list_all P al \<Longrightarrow> P (k, v) \<Longrightarrow> list_all P (AList.update k v al)"
  by (induction al) auto

lemma effect_direction:
  "processUNOCardEffect g c = Returned g' \<or> processUNOCardEffect g c = Threw e g' \<Longrightarrow>
   direction_ok g \<Longrightarrow> direction_ok g'"
  unfolding processUNOCardEffect_def Let_def direction_ok_def
  by (auto split: if_splits outcome.splits
        dest!: forced_draw_fields [OF disjI1] forced_draw_fields [OF disjI2])

lemma map_of_list_all: "list_all P al \<Longrightarrow> map_of al k = Some v \<Longrightarrow> P (k, v)"
  by (auto simp: list_all_iff dest: map_of_SomeD)

lemma uno_direction_invariant:
  assumes "list_all (\<lambda>(k, g). direction_ok g) games"
  shows "list_all (\<lambda>(k, g). direction_ok g) (snd (uno_create games u now))"
    and "list_all (\<lambda>(k, g). direction_ok g) (fst (snd (uno_join rnd games u gid)))"
    and "list_all (\<lambda>(k, g). direction_ok g) (fst (snd (uno_play_card games u gid i cc)))"
    and "list_all (\<lambda>(k, g). direction_ok g) (fst (snd (uno_draw_card rnd games u gid)))"
proof -
  show "list_all (\<lambda>(k, g). direction_ok g) (snd (uno_create games u now))"
    using assms by (auto simp: uno_create_def failures Let_def direction_ok_def intro!: list_all_update)
  show "list_all (\<lambda>(k, g). direction_ok g) (fst (snd (uno_join rnd games u gid)))"
    using assms
    by (auto simp: uno_join_def failures Let_def direction_ok_def initializeUNOGame_def
          split: option.splits outcome.splits prod.splits
          dest: map_of_list_all intro!: list_all_update)
  show "list_all (\<lambda>(k, g). direction_ok g) (fst (snd (uno_play_card games u gid i cc)))"
  proof (cases "map_of games gid")
    case None
    with assms show ?thesis by (simp add: uno_play_card_def failures)
  next
    case (Some g)
    with assms have "direction_ok g" by (auto dest: map_of_list_all)
    with assms Some show ?thesis
      by (auto simp: uno_play_card_def failures Let_def
            split: option.splits outcome.splits
            dest!: effect_direction [OF disjI1] effect_direction [OF disjI2]
            intro!: list_all_update)
        (auto simp: direction_ok_def)
  qed
  show "list_all (\<lambda>(k, g). direction_ok g) (fst (snd (uno_draw_card rnd games u gid)))"
    using assms
    by (auto simp: uno_draw_card_def failures Let_def direction_ok_def
          split: option.splits dest: map_of_list_all intro!: list_all_update)
qed

lemma chess_pair_eval:
  "fst (chess_move chess_pair alice ''1000'' ''e1'' ''e3'' 2000) = Success"
  "fst (chess_move chess_pair alice ''1000'' ''e2'' ''e4'' 2000) = Failure 400 ''Invalid move''"
  "fst (chess_move chess_pair bob ''1000'' ''e7'' ''e5'' 2000) = Failure 400 ''Not your turn''"
  "fst (chess_move chess_pair alice ''1000'' ''e7'' ''e5'' 2000) = Failure 400 ''Invalid move''"
  "fst (chess_move chess_pair alice ''1000'' ''e'' ''e5'' 2000) = Uncaught TypeError"
  by (simp_all add: chess_pair_def chess_join_def chess_create_def chess_move_def toString_1000
        alice_def bob_def failures Let_def isValidMove_def makeMove_def parseInt_at1_def
        col_of_def outside_def js_index_def initializeChessBoard_def toUpperCase_def
        set_cell_def isCheckmate_def isStalemate_def)

lemma ttt_pair_eval:
  "fst (ttt_move ttt_pair alice ''ttt_1000'' 4) = Success"
  "fst (ttt_move ttt_pair alice ''ttt_1000'' 9) = Failure 400 ''Position already taken''"
  "fst (ttt_move ttt_pair carol ''ttt_1000'' 4) = Failure 403 ''Gaming access required''"
  by (simp_all add: ttt_pair_def ttt_join_def ttt_create_def ttt_move_def toString_1000
        alice_def bob_def carol_def failures Let_def js_index_def checkTicTacToeWinner_def
        winPatterns_def)

lemma ludo_pair_eval:
  "fst (ludo_roll 5 ludo_pair alice ''ludo_1000'') = Success"
  "fst (ludo_roll 5 ludo_pair bob ''ludo_1000'') = Failure 400 ''Not your turn''"
  "fst (ludo_roll 5 ludo_pair alice ''ludo_7'') = Failure 404 ''Game not found''"
  by (simp_all add: ludo_pair_def ludo_start_def ludo_join_def ludo_create_def ludo_roll_def
        toString_1000 alice_def bob_def failures Let_def js_index_def human_def ludo_full_def
        emit_gaming_def)

text \<open>
  A move to a column beyond the row makes that row grow, as the assignment does in
  JavaScript: from \<open>a1\<close> to \<open>z3\<close> the pawn ends at index 25 of a row of 26 cells.
\<close>

lemma makeMove_grows_row:
  "\<exists>b. makeMove initializeChessBoard ''a1'' ''z3'' = Inr b
       \<and> length (b ! 4) = 26 \<and> b ! 4 ! 25 = Some CHR ''P'' \<and> b ! 6 ! 0 = None"
  by (simp add: makeMove_def parseInt_at1_def col_of_def js_index_def initializeChessBoard_def
        set_cell_def Let_def nth_list_update)

lemmas verdicts = refused_def accepted_def failures emit_gaming_def

lemma update_same: "map_of al k = Some v \<Longrightarrow> AList.update k v al = al"
  by (induction al) (auto split: if_splits)

lemma find_name_None:
  "(\<forall>p \<in> set ps. name p \<noteq> n) \<Longrightarrow> find (\<lambda>p. name p = n) ps = None"
  by (auto simp: find_None_iff)

lemma not_a_player:
  "(\<forall>p \<in> set ps. name p \<noteq> n) \<Longrightarrow> js_index ps k = Some cp \<Longrightarrow> name cp \<noteq> n"
  by (auto simp: js_index_def split: if_splits)

lemma forced_draw_table:
  "forced_draw n k g = Returned g' \<or> forced_draw n k g = Threw e g' \<Longrightarrow>
   discardPile g' = discardPile g \<and> currentColor g' = currentColor g
   \<and> currentNumber g' = currentNumber g"
proof (induction n arbitrary: g)
  case 0
  then show ?case by auto
next
  case (Suc n)
  show ?case
  proof (cases "deck g = [] \<or> js_index (players g) k = None")
    case True
    with Suc.prems show ?thesis by (auto split: if_splits)
  next
    case False
    then obtain p where p: "js_index (players g) k = Some p" by auto
    let ?g1 = "g\<lparr>players := (players g)[nat k := p\<lparr>hand := hand p @ [fst (pop (deck g))]\<rparr>],
                    deck := snd (pop (deck g))\<rparr>"
    from Suc.prems False p
    have "forced_draw n k ?g1 = Returned g' \<or> forced_draw n k ?g1 = Threw e g'" by simp
    from Suc.IH [OF this] show ?thesis by simp
  qed
qed

lemma effect_table:
  "processUNOCardEffect g c = Returned g' \<Longrightarrow>
   discardPile g' = discardPile g \<and> currentColor g' = currentColor g
   \<and> currentNumber g' = currentNumber g"
  unfolding processUNOCardEffect_def Let_def
  by (auto split: if_splits outcome.splits dest: forced_draw_table [OF disjI1])

lemma uno_play_accepts:
  assumes d: "direction_ok ug" and r: "role u = ''gamer''" and m: "map_of ugames gid = Some ug"
    and cp: "js_index (players ug) (u_currentPlayerIndex ug) = Some cp"
    and n: "name cp = username u"
    and c: "js_index (hand cp) i = Some (Some c)"
    and p: "canPlayUNOCard c (currentColor ug) (currentNumber ug)"
  shows "\<exists>ug'. accepted ''uno-card-played'' gid ug' (uno_play_card ugames u gid i cc)
           \<and> discardPile ug' = discardPile ug @ [c]
           \<and> currentNumber ug' = cvalue c
           \<and> currentColor ug' = (if ctype c = ''wild''
                                   then (case cc of None \<Rightarrow> ''red''
                                         | Some s \<Rightarrow> if s = [] then ''red'' else s)
                                   else color c)"
proof -
  let ?g2 = "ug\<lparr>players := (players ug)
                   [nat (u_currentPlayerIndex ug) := cp\<lparr>hand := splice1 (nat i) (hand cp)\<rparr>],
                 discardPile := discardPile ug @ [c],
                 currentColor :=
                   (if ctype c = ''wild''
                    then (case cc of None \<Rightarrow> ''red'' | Some s \<Rightarrow> if s = [] then ''red'' else s)
                    else color c),
                 currentNumber := cvalue c\<rparr>"
  from cp have "js_index (players ?g2) (u_currentPlayerIndex ?g2) \<noteq> None"
    by (auto simp: js_index_def split: if_splits)
  moreover from d have "direction ?g2 = 1 \<or> direction ?g2 = -1" by (simp add: direction_ok_def)
  ultimately obtain g3 where e: "processUNOCardEffect ?g2 c = Returned g3"
    using effect_returns by blast
  from effect_table [OF e]
  have t: "discardPile g3 = discardPile ug @ [c]" "currentNumber g3 = cvalue c"
    "currentColor g3 = (if ctype c = ''wild''
                        then (case cc of None \<Rightarrow> ''red'' | Some s \<Rightarrow> if s = [] then ''red'' else s)
                        else color c)"
    by simp_all
  from c have i: "\<not> int (length (hand cp)) \<le> i" by (auto simp: js_index_def split: if_splits)
  from r m cp n c p e i t show ?thesis
    by (simp add: uno_play_card_def verdicts Let_def update_conv')
qed

lemma reshuffled_deck:
  "1 < length ds \<Longrightarrow> shuffleArray rnd (butlast ds) \<noteq> []"
proof
  assume l: "1 < length ds" and e: "shuffleArray rnd (butlast ds) = []"
  have "length (shuffleArray rnd (butlast ds)) = length ds - 1" by simp
  with e l show False by simp
qed

lemma fresh_uno_eq: "fresh_uno = [(''uno_1000'', fresh_uno_game)]"
  by (simp add: fresh_uno_def fresh_uno_game_def uno_create_def alice_def seat_def toString_1000
        Let_def)

text \<open>
  C6 (as amended). For the chess move, the grid move, the card play, the card draw and the
  race roll, in this order below.

  A request that fails a check of its endpoint is refused with the answer of that check,
  no match is changed and nothing is emitted: a caller who is no gamer (403), an unknown
  match (404), a caller who is no player of the match (403 for chess and grid; the card and
  race endpoints have no such test, but there a caller who is no player is never the player
  to move, and the request does not succeed, changes nothing and emits nothing), a caller
  whose turn it is not (400), and an action the endpoint finds illegal (400: for chess a
  move \<open>isValidMove\<close> turns down, for the grid a cell that is not empty, for the card play
  an index at or beyond the hand or a card that cannot be played, for the race roll dice
  that are already rolled). Every request that ends otherwise than in a success, an
  uncaught exception included, changes no match and emits nothing.

  A request that passes the checks and raises no exception is accepted: the answer is a
  success, the container holds the match as the action left it (for chess the board after
  \<open>makeMove\<close>, the move appended to the log and the turn passed on; for the grid the
  symbol in the cell; for the card play the card on the discard pile and the current colour
  and number set from it; for the card draw the top card of the deck, reshuffled from the
  discard pile when it was empty, in the hand and the turn passed on; for the race roll the
  dice value stored), and exactly one event, carrying that match, goes to the gaming room.

  The card draw has no check of its own: a draw by the player to move is accepted also
  when the deck is empty and the discard pile has at most one card, so that nothing can be
  reshuffled. Then no card is drawn and no match changes, and the answer is still a success
  with one event.

  For the card play the statements about success are under the invariant that
  \<open>game.direction\<close> is 1 or -1, which the card endpoints establish and keep
  (\<open>uno_direction_invariant\<close>).
\<close>

theorem C6_action_checks:
  "((role u \<noteq> ''gamer'' \<longrightarrow>
       refused (Failure 403 ''Gaming access required'') cgames (chess_move cgames u gid from_sq to_sq now))
    \<and> (role u = ''gamer'' \<longrightarrow> map_of cgames gid = None \<longrightarrow>
       refused (Failure 404 ''Game not found'') cgames (chess_move cgames u gid from_sq to_sq now))
    \<and> (role u = ''gamer'' \<longrightarrow> map_of cgames gid = Some cg \<longrightarrow> username u \<notin> set (players cg) \<longrightarrow>
       refused (Failure 403 ''Not a player in this game'') cgames
         (chess_move cgames u gid from_sq to_sq now))
    \<and> (role u = ''gamer'' \<longrightarrow> map_of cgames gid = Some cg \<longrightarrow> username u \<in> set (players cg) \<longrightarrow>
       turn cg \<noteq> playerColor cg u \<longrightarrow>
       refused (Failure 400 ''Not your turn'') cgames (chess_move cgames u gid from_sq to_sq now))
    \<and> (role u = ''gamer'' \<longrightarrow> map_of cgames gid = Some cg \<longrightarrow> username u \<in> set (players cg) \<longrightarrow>
       turn cg = playerColor cg u \<longrightarrow>
       isValidMove (c_board cg) from_sq to_sq (playerColor cg u) = Inr False \<longrightarrow>
       refused (Failure 400 ''Invalid move'') cgames (chess_move cgames u gid from_sq to_sq now))
    \<and> (role u = ''gamer'' \<longrightarrow> map_of cgames gid = Some cg \<longrightarrow> username u \<in> set (players cg) \<longrightarrow>
       turn cg = playerColor cg u \<longrightarrow>
       isValidMove (c_board cg) from_sq to_sq (playerColor cg u) = Inr True \<longrightarrow>
       makeMove (c_board cg) from_sq to_sq = Inr b \<longrightarrow>
       accepted ''move-made'' gid
         (cg\<lparr>c_board := b,
             moves := moves cg @ [\<lparr>mv_from = from_sq, mv_to = to_sq, mv_player = username u,
                                   mv_timestamp = now\<rparr>],
             turn := (if turn cg = ''white'' then ''black'' else ''white'')\<rparr>)
         (chess_move cgames u gid from_sq to_sq now))
    \<and> act_contract ''move-made'' gid cgames (chess_move cgames u gid from_sq to_sq now))
   \<and> ((role u \<noteq> ''gamer'' \<longrightarrow>
       refused (Failure 403 ''Gaming access required'') tgames (ttt_move tgames u gid pos))
    \<and> (role u = ''gamer'' \<longrightarrow> map_of tgames gid = None \<longrightarrow>
       refused (Failure 404 ''Game not found'') tgames (ttt_move tgames u gid pos))
    \<and> (role u = ''gamer'' \<longrightarrow> map_of tgames gid = Some tg \<longrightarrow>
       (\<forall>p \<in> set (players tg). name p \<noteq> username u) \<longrightarrow>
       refused (Failure 403 ''Not a player in this game'') tgames (ttt_move tgames u gid pos))
    \<and> (role u = ''gamer'' \<longrightarrow> map_of tgames gid = Some tg \<longrightarrow>
       find (\<lambda>p. name p = username u) (players tg) = Some pl \<longrightarrow> currentPlayer tg \<noteq> symbol pl \<longrightarrow>
       refused (Failure 400 ''Not your turn'') tgames (ttt_move tgames u gid pos))
    \<and> (role u = ''gamer'' \<longrightarrow> map_of tgames gid = Some tg \<longrightarrow>
       find (\<lambda>p. name p = username u) (players tg) = Some pl \<longrightarrow> currentPlayer tg = symbol pl \<longrightarrow>
       js_index (t_board tg) pos \<noteq> Some [] \<longrightarrow>
       refused (Failure 400 ''Position already taken'') tgames (ttt_move tgames u gid pos))
    \<and> (role u = ''gamer'' \<longrightarrow> map_of tgames gid = Some tg \<longrightarrow>
       find (\<lambda>p. name p = username u) (players tg) = Some pl \<longrightarrow> currentPlayer tg = symbol pl \<longrightarrow>
       js_index (t_board tg) pos = Some [] \<longrightarrow>
       (\<exists>tg'. accepted ''tictactoe-move-made'' gid tg' (ttt_move tgames u gid pos)
              \<and> t_board tg' = (t_board tg)[nat pos := symbol pl]
              \<and> players tg' = players tg))
    \<and> act_contract ''tictactoe-move-made'' gid tgames (ttt_move tgames u gid pos))
   \<and> ((role u \<noteq> ''gamer'' \<longrightarrow>
       refused (Failure 403 ''Gaming access required'') ugames (uno_play_card ugames u gid i cc))
    \<and> (role u = ''gamer'' \<longrightarrow> map_of ugames gid = None \<longrightarrow>
       refused (Failure 404 ''Game not found'') ugames (uno_play_card ugames u gid i cc))
    \<and> (map_of ugames gid = Some ug \<longrightarrow> (\<forall>p \<in> set (players ug). name p \<noteq> username u) \<longrightarrow>
       fst (uno_play_card ugames u gid i cc) \<noteq> Success
       \<and> fst (snd (uno_play_card ugames u gid i cc)) = ugames
       \<and> snd (snd (uno_play_card ugames u gid i cc)) = [])
    \<and> (role u = ''gamer'' \<longrightarrow> map_of ugames gid = Some ug \<longrightarrow>
       js_index (players ug) (u_currentPlayerIndex ug) = Some cp \<longrightarrow> name cp \<noteq> username u \<longrightarrow>
       refused (Failure 400 ''Not your turn'') ugames (uno_play_card ugames u gid i cc))
    \<and> (role u = ''gamer'' \<longrightarrow> map_of ugames gid = Some ug \<longrightarrow>
       js_index (players ug) (u_currentPlayerIndex ug) = Some cp \<longrightarrow> name cp = username u \<longrightarrow>
       int (length (hand cp)) \<le> i \<longrightarrow>
       refused (Failure 400 ''Invalid card index'') ugames (uno_play_card ugames u gid i cc))
    \<and> (role u = ''gamer'' \<longrightarrow> map_of ugames gid = Some ug \<longrightarrow>
       js_index (players ug) (u_currentPlayerIndex ug) = Some cp \<longrightarrow> name cp = username u \<longrightarrow>
       js_index (hand cp) i = Some (Some c) \<longrightarrow>
       \<not> canPlayUNOCard c (currentColor ug) (currentNumber ug) \<longrightarrow>
       refused (Failure 400 ''Cannot play this card'') ugames (uno_play_card ugames u gid i cc))
    \<and> (direction_ok ug \<longrightarrow> role u = ''gamer'' \<longrightarrow> map_of ugames gid = Some ug \<longrightarrow>
       js_index (players ug) (u_currentPlayerIndex ug) = Some cp \<longrightarrow> name cp = username u \<longrightarrow>
       js_index (hand cp) i = Some (Some c) \<longrightarrow>
       canPlayUNOCard c (currentColor ug) (currentNumber ug) \<longrightarrow>
       (\<exists>ug'. accepted ''uno-card-played'' gid ug' (uno_play_card ugames u gid i cc)
              \<and> discardPile ug' = discardPile ug @ [c]
              \<and> currentNumber ug' = cvalue c
              \<and> currentColor ug' = (if ctype c = ''wild''
                                      then (case cc of None \<Rightarrow> ''red''
                                            | Some s \<Rightarrow> if s = [] then ''red'' else s)
                                      else color c)))
    \<and> ((case map_of ugames gid of None \<Rightarrow> True | Some g \<Rightarrow> direction_ok g) \<longrightarrow>
       act_contract ''uno-card-played'' gid ugames (uno_play_card ugames u gid i cc)))
   \<and> ((role u \<noteq> ''gamer'' \<longrightarrow>
       refused (Failure 403 ''Gaming access required'') ugames (uno_draw_card rnd ugames u gid))
    \<and> (role u = ''gamer'' \<longrightarrow> map_of ugames gid = None \<longrightarrow>
       refused (Failure 404 ''Game not found'') ugames (uno_draw_card rnd ugames u gid))
    \<and> (map_of ugames gid = Some ug \<longrightarrow> (\<forall>p \<in> set (players ug). name p \<noteq> username u) \<longrightarrow>
       fst (uno_draw_card rnd ugames u gid) \<noteq> Success
       \<and> fst (snd (uno_draw_card rnd ugames u gid)) = ugames
       \<and> snd (snd (uno_draw_card rnd ugames u gid)) = [])
    \<and> (role u = ''gamer'' \<longrightarrow> map_of ugames gid = Some ug \<longrightarrow>
       js_index (players ug) (u_currentPlayerIndex ug) = Some cp \<longrightarrow> name cp \<noteq> username u \<longrightarrow>
       refused (Failure 400 ''Not your turn'') ugames (uno_draw_card rnd ugames u gid))
    \<and> (role u = ''gamer'' \<longrightarrow> map_of ugames gid = Some ug \<longrightarrow>
       js_index (players ug) (u_currentPlayerIndex ug) = Some cp \<longrightarrow> name cp = username u \<longrightarrow>
       deck ug \<noteq> [] \<longrightarrow>
       (\<exists>ug'. accepted ''uno-card-drawn'' gid ug' (uno_draw_card rnd ugames u gid)
              \<and> deck ug' = butlast (deck ug)
              \<and> js_index (players ug') (u_currentPlayerIndex ug)
                  = Some (cp\<lparr>hand := hand cp @ [Some (last (deck ug))]\<rparr>)
              \<and> u_currentPlayerIndex ug' = step_index ug (u_currentPlayerIndex ug)))
    \<and> (role u = ''gamer'' \<longrightarrow> map_of ugames gid = Some ug \<longrightarrow>
       js_index (players ug) (u_currentPlayerIndex ug) = Some cp \<longrightarrow> name cp = username u \<longrightarrow>
       deck ug = [] \<longrightarrow> 1 < length (discardPile ug) \<longrightarrow>
       (\<exists>ug'. accepted ''uno-card-drawn'' gid ug' (uno_draw_card rnd ugames u gid)
              \<and> discardPile ug' = [last (discardPile ug)]
              \<and> length (deck ug') + 2 = length (discardPile ug)
              \<and> (\<exists>x. js_index (players ug') (u_currentPlayerIndex ug)
                       = Some (cp\<lparr>hand := hand cp @ [x]\<rparr>))
              \<and> u_currentPlayerIndex ug' = step_index ug (u_currentPlayerIndex ug)))
    \<and> (role u = ''gamer'' \<longrightarrow> map_of ugames gid = Some ug \<longrightarrow>
       js_index (players ug) (u_currentPlayerIndex ug) = Some cp \<longrightarrow> name cp = username u \<longrightarrow>
       deck ug = [] \<longrightarrow> length (discardPile ug) \<le> 1 \<longrightarrow>
       uno_draw_card rnd ugames u gid
         = (Success, ugames,
            [\<lparr>room = ''gaming-room'', event = ''uno-card-drawn'', gameId = gid, game = ug\<rparr>]))
    \<and> act_contract ''uno-card-drawn'' gid ugames (uno_draw_card rnd ugames u gid))
   \<and> ((role u \<noteq> ''gamer'' \<longrightarrow>
       refused (Failure 403 ''Gaming access required'') lgames (ludo_roll die lgames u gid))
    \<and> (role u = ''gamer'' \<longrightarrow> map_of lgames gid = None \<longrightarrow>
       refused (Failure 404 ''Game not found'') lgames (ludo_roll die lgames u gid))
    \<and> (map_of lgames gid = Some lg \<longrightarrow> (\<forall>p \<in> set (players lg). name p \<noteq> username u) \<longrightarrow>
       fst (ludo_roll die lgames u gid) \<noteq> Success
       \<and> fst (snd (ludo_roll die lgames u gid)) = lgames
       \<and> snd (snd (ludo_roll die lgames u gid)) = [])
    \<and> (role u = ''gamer'' \<longrightarrow> map_of lgames gid = Some lg \<longrightarrow>
       js_index (players lg) (l_currentPlayerIndex lg) = Some lp \<longrightarrow> name lp \<noteq> username u \<longrightarrow>
       refused (Failure 400 ''Not your turn'') lgames (ludo_roll die lgames u gid))
    \<and> (role u = ''gamer'' \<longrightarrow> map_of lgames gid = Some lg \<longrightarrow>
       js_index (players lg) (l_currentPlayerIndex lg) = Some lp \<longrightarrow> name lp = username u \<longrightarrow>
       diceRolled lg \<longrightarrow>
       refused (Failure 400 ''Dice already rolled'') lgames (ludo_roll die lgames u gid))
    \<and> (role u = ''gamer'' \<longrightarrow> map_of lgames gid = Some lg \<longrightarrow>
       js_index (players lg) (l_currentPlayerIndex lg) = Some lp \<longrightarrow> name lp = username u \<longrightarrow>
       \<not> diceRolled lg \<longrightarrow>
       accepted ''ludo-dice-rolled'' gid
         (lg\<lparr>lastDiceRoll := Some (int (die mod 6 + 1)), diceRolled := True\<rparr>)
         (ludo_roll die lgames u gid))
    \<and> act_contract ''ludo-dice-rolled'' gid lgames (ludo_roll die lgames u gid))"
  apply (intro conjI impI)
  subgoal by (simp add: chess_move_def verdicts)
  subgoal by (simp add: chess_move_def verdicts)
  subgoal by (simp add: chess_move_def verdicts)
  subgoal by (simp add: chess_move_def verdicts playerColor_def)
  subgoal by (simp add: chess_move_def verdicts playerColor_def)
  subgoal by (simp add: chess_move_def verdicts playerColor_def Let_def update_conv'
        isCheckmate_def isStalemate_def)
  subgoal by (rule chess_move_contract)
  subgoal by (simp add: ttt_move_def verdicts)
  subgoal by (simp add: ttt_move_def verdicts)
  subgoal by (simp add: ttt_move_def verdicts find_name_None)
  subgoal by (simp add: ttt_move_def verdicts)
  subgoal by (simp add: ttt_move_def verdicts)
  subgoal by (simp add: ttt_move_def verdicts Let_def update_conv')
  subgoal by (rule ttt_move_contract)
  subgoal by (simp add: uno_play_card_def verdicts)
  subgoal by (simp add: uno_play_card_def verdicts)
  subgoal by (auto simp: uno_play_card_def verdicts split: option.splits dest: not_a_player)
  subgoal by (auto simp: uno_play_card_def verdicts split: option.splits dest: not_a_player)
  subgoal by (auto simp: uno_play_card_def verdicts split: option.splits dest: not_a_player)
  subgoal by (simp add: uno_play_card_def verdicts)
  subgoal by (simp add: uno_play_card_def verdicts)
  subgoal by (auto simp: uno_play_card_def verdicts js_index_def split: if_splits)
  subgoal by (rule uno_play_accepts)
  subgoal by (rule uno_play_contract) (auto simp: direction_ok_def)
  subgoal by (simp add: uno_draw_card_def verdicts)
  subgoal by (simp add: uno_draw_card_def verdicts)
  subgoal by (auto simp: uno_draw_card_def verdicts split: option.splits dest: not_a_player)
  subgoal by (auto simp: uno_draw_card_def verdicts split: option.splits dest: not_a_player)
  subgoal by (auto simp: uno_draw_card_def verdicts split: option.splits dest: not_a_player)
  subgoal by (simp add: uno_draw_card_def verdicts)
  subgoal by (auto simp: uno_draw_card_def verdicts Let_def update_conv' js_index_def pop_def
        step_index_def split: if_splits)
  subgoal by (auto simp: uno_draw_card_def verdicts Let_def update_conv' js_index_def pop_def
        reshuffleUNODeck_def reshuffled_deck step_index_def split: if_splits)
  subgoal by (simp add: uno_draw_card_def verdicts Let_def reshuffleUNODeck_def update_same)
  subgoal by (rule uno_draw_contract)
  subgoal by (simp add: ludo_roll_def verdicts)
  subgoal by (simp add: ludo_roll_def verdicts)
  subgoal by (auto simp: ludo_roll_def verdicts split: option.splits dest: not_a_player)
  subgoal by (auto simp: ludo_roll_def verdicts split: option.splits dest: not_a_player)
  subgoal by (auto simp: ludo_roll_def verdicts split: option.splits dest: not_a_player)
  subgoal by (simp add: ludo_roll_def verdicts)
  subgoal by (simp add: ludo_roll_def verdicts)
  subgoal by (simp add: ludo_roll_def verdicts Let_def update_conv')
  subgoal by (rule ludo_roll_contract)
  done

theorem C6_witness:
  "refused (Failure 400 ''Not your turn'') chess_pair
     (chess_move chess_pair bob ''1000'' ''e7'' ''e5'' 2000)
   \<and> refused (Failure 403 ''Not a player in this game'') chess_pair
     (chess_move chess_pair dave ''1000'' ''e1'' ''e3'' 2000)
   \<and> refused (Failure 400 ''Invalid move'') chess_pair
     (chess_move chess_pair alice ''1000'' ''e7'' ''e5'' 2000)
   \<and> fst (chess_move chess_pair alice ''1000'' ''e1'' ''e3'' 2000) = Success
   \<and> length (snd (snd (chess_move chess_pair alice ''1000'' ''e1'' ''e3'' 2000))) = 1
   \<and> refused (Failure 404 ''Game not found'') ttt_pair (ttt_move ttt_pair alice ''ttt_7'' 4)
   \<and> refused (Failure 400 ''Position already taken'') ttt_pair
     (ttt_move ttt_pair alice ''ttt_1000'' 9)
   \<and> (\<exists>g'. accepted ''tictactoe-move-made'' ''ttt_1000'' g' (ttt_move ttt_pair alice ''ttt_1000'' 4)
          \<and> t_board g' = [[], [], [], [], ''X'', [], [], [], []])
   \<and> refused (Failure 400 ''Not your turn'') demo_games (uno_play_card demo_games bob ''g1'' 0 None)
   \<and> (\<exists>g'. accepted ''uno-card-played'' ''g1'' g' (uno_play_card demo_games alice ''g1'' 0 None)
          \<and> discardPile g' = [yellow_3, red_7, red_draw2])
   \<and> (\<exists>g'. accepted ''uno-card-drawn'' ''g1'' g' (uno_draw_card rnd0 demo_games alice ''g1'')
          \<and> discardPile g' = [red_7] \<and> deck g' = [])
   \<and> uno_draw_card rnd0 fresh_uno alice ''uno_1000''
       = (Success, fresh_uno,
          [\<lparr>room = ''gaming-room'', event = ''uno-card-drawn'', gameId = ''uno_1000'',
            game = fresh_uno_game\<rparr>])
   \<and> refused (Failure 400 ''Not your turn'') ludo_pair (ludo_roll 5 ludo_pair bob ''ludo_1000'')
   \<and> fst (ludo_roll 5 ludo_pair alice ''ludo_1000'') = Success
   \<and> length (snd (snd (ludo_roll 5 ludo_pair alice ''ludo_1000''))) = 1"
proof -
  let ?cg = "\<lparr>game_id = ''1000'', players = [''alice'', ''bob''], status = Playing, winner = None,
              createdAt = 1000, c_board = initializeChessBoard, turn = ''white'', moves = []\<rparr>"
  have cm: "map_of chess_pair ''1000'' = Some ?cg"
    by (simp add: chess_pair_def chess_join_def chess_create_def alice_def bob_def failures
          toString_1000 Let_def)
  have roles: "role alice = ''gamer''" "role bob = ''gamer''" "role dave = ''gamer''"
    by (simp_all add: alice_def bob_def dave_def)
  have c1: "refused (Failure 400 ''Not your turn'') chess_pair
      (chess_move chess_pair bob ''1000'' ''e7'' ''e5'' 2000)"
  proof -
    have "username bob \<in> set (players ?cg)" "turn ?cg \<noteq> playerColor ?cg bob"
      by (simp_all add: bob_def playerColor_def js_index_def)
    with C6_action_checks [where u = bob and cgames = chess_pair and gid = "''1000''" and cg = ?cg
        and from_sq = "''e7''" and to_sq = "''e5''" and now = 2000 and b = "[]", THEN conjunct1]
      cm roles
    show ?thesis by auto
  qed
  have c2: "refused (Failure 403 ''Not a player in this game'') chess_pair
      (chess_move chess_pair dave ''1000'' ''e1'' ''e3'' 2000)"
  proof -
    have "username dave \<notin> set (players ?cg)" by (simp add: dave_def)
    with C6_action_checks [where u = dave and cgames = chess_pair and gid = "''1000''" and cg = ?cg
        and from_sq = "''e1''" and to_sq = "''e3''" and now = 2000 and b = "[]", THEN conjunct1]
      cm roles
    show ?thesis by auto
  qed
  have own: "username alice \<in> set (players ?cg)" "turn ?cg = playerColor ?cg alice"
    by (simp_all add: alice_def playerColor_def js_index_def)
  have c3: "refused (Failure 400 ''Invalid move'') chess_pair
      (chess_move chess_pair alice ''1000'' ''e7'' ''e5'' 2000)"
  proof -
    have "isValidMove (c_board ?cg) ''e7'' ''e5'' (playerColor ?cg alice) = Inr False"
      by (simp add: isValidMove_def parseInt_at1_def col_of_def outside_def js_index_def
            initializeChessBoard_def toUpperCase_def playerColor_def alice_def Let_def)
    with C6_action_checks [where u = alice and cgames = chess_pair and gid = "''1000''" and cg = ?cg
        and from_sq = "''e7''" and to_sq = "''e5''" and now = 2000 and b = "[]", THEN conjunct1]
      cm roles own
    show ?thesis by auto
  qed
  have c4: "fst (chess_move chess_pair alice ''1000'' ''e1'' ''e3'' 2000) = Success
      \<and> length (snd (snd (chess_move chess_pair alice ''1000'' ''e1'' ''e3'' 2000))) = 1"
  proof -
    have v: "isValidMove (c_board ?cg) ''e1'' ''e3'' (playerColor ?cg alice) = Inr True"
      by (simp add: isValidMove_def parseInt_at1_def col_of_def outside_def js_index_def
            initializeChessBoard_def toUpperCase_def playerColor_def alice_def Let_def)
    obtain b where m: "makeMove (c_board ?cg) ''e1'' ''e3'' = Inr b"
      by (simp add: makeMove_def parseInt_at1_def col_of_def js_index_def initializeChessBoard_def
            Let_def)
    from C6_action_checks [where u = alice and cgames = chess_pair and gid = "''1000''" and cg = ?cg
        and from_sq = "''e1''" and to_sq = "''e3''" and now = 2000 and b = b, THEN conjunct1]
      cm roles own v m
    have "accepted ''move-made'' ''1000''
        (?cg\<lparr>c_board := b,
             moves := moves ?cg @ [\<lparr>mv_from = ''e1'', mv_to = ''e3'', mv_player = username alice,
                                    mv_timestamp = 2000\<rparr>],
             turn := (if turn ?cg = ''white'' then ''black'' else ''white'')\<rparr>)
        (chess_move chess_pair alice ''1000'' ''e1'' ''e3'' 2000)"
      by auto
    then show ?thesis by (simp add: accepted_def)
  qed
  have t1: "refused (Failure 404 ''Game not found'') ttt_pair (ttt_move ttt_pair alice ''ttt_7'' 4)"
  proof -
    have "map_of ttt_pair ''ttt_7'' = None"
      by (simp add: ttt_pair_def ttt_join_def ttt_create_def alice_def bob_def failures
            toString_1000 Let_def)
    with C6_action_checks [where u = alice and tgames = ttt_pair and gid = "''ttt_7''" and pos = 4,
        THEN conjunct2, THEN conjunct1] roles
    show ?thesis by auto
  qed
  let ?x = "\<lparr>name = ''alice'', socketId = None, symbol = ''X''\<rparr>"
  let ?tg = "\<lparr>game_id = ''ttt_1000'',
              players = [?x, \<lparr>name = ''bob'', socketId = None, symbol = ''O''\<rparr>],
              status = Playing, winner = None, createdAt = 1000,
              t_board = replicate 9 [], currentPlayer = ''X''\<rparr>"
  have tm: "map_of ttt_pair ''ttt_1000'' = Some ?tg"
    by (simp add: ttt_pair_def ttt_join_def ttt_create_def alice_def bob_def failures
          toString_1000 Let_def)
  have tp: "find (\<lambda>p. name p = username alice) (players ?tg) = Some ?x"
    "currentPlayer ?tg = symbol ?x"
    by (simp_all add: alice_def)
  have t2: "refused (Failure 400 ''Position already taken'') ttt_pair
      (ttt_move ttt_pair alice ''ttt_1000'' 9)"
  proof -
    have "js_index (t_board ?tg) 9 \<noteq> Some []" by (simp add: js_index_def)
    with C6_action_checks [where u = alice and tgames = ttt_pair and gid = "''ttt_1000''"
        and tg = ?tg and pl = ?x and pos = 9, THEN conjunct2, THEN conjunct1] roles tm tp
    show ?thesis by auto
  qed
  have t3: "\<exists>g'. accepted ''tictactoe-move-made'' ''ttt_1000'' g'
        (ttt_move ttt_pair alice ''ttt_1000'' 4)
      \<and> t_board g' = [[], [], [], [], ''X'', [], [], [], []]"
  proof -
    have e: "js_index (t_board ?tg) 4 = Some []" by (simp add: js_index_def)
    have v: "(t_board ?tg)[nat 4 := symbol ?x] = [[], [], [], [], ''X'', [], [], [], []]"
      by (simp add: numeral_eq_Suc)
    from C6_action_checks [where u = alice and tgames = ttt_pair and gid = "''ttt_1000''"
        and tg = ?tg and pl = ?x and pos = 4, THEN conjunct2, THEN conjunct1] roles tm tp e
    have "\<exists>g'. accepted ''tictactoe-move-made'' ''ttt_1000'' g'
          (ttt_move ttt_pair alice ''ttt_1000'' 4)
        \<and> t_board g' = (t_board ?tg)[nat 4 := symbol ?x]"
      by auto
    with v show ?thesis by simp
  qed
  have dm: "map_of demo_games ''g1'' = Some demo_game" by (simp add: demo_games_def)
  have dk: "direction_ok demo_game" by (simp add: demo_game_def direction_ok_def)
  let ?a = "(seat ''alice'')\<lparr>hand := [Some red_draw2, Some blue_5]\<rparr>"
  have dc: "js_index (players demo_game) (u_currentPlayerIndex demo_game) = Some ?a"
    by (simp add: demo_game_def js_index_def)
  have u1: "refused (Failure 400 ''Not your turn'') demo_games
      (uno_play_card demo_games bob ''g1'' 0 None)"
  proof -
    have "name ?a \<noteq> username bob" by (simp add: seat_def bob_def)
    with C6_action_checks [where u = bob and ugames = demo_games and gid = "''g1''" and ug = demo_game
        and cp = ?a and i = 0 and cc = None and c = red_draw2,
        THEN conjunct2, THEN conjunct2, THEN conjunct1] dm dc roles
    show ?thesis by auto
  qed
  have u2: "\<exists>g'. accepted ''uno-card-played'' ''g1'' g' (uno_play_card demo_games alice ''g1'' 0 None)
      \<and> discardPile g' = [yellow_3, red_7, red_draw2]"
  proof -
    have n: "name ?a = username alice" by (simp add: seat_def alice_def)
    have h: "js_index (hand ?a) 0 = Some (Some red_draw2)" by (simp add: js_index_def)
    have p: "canPlayUNOCard red_draw2 (currentColor demo_game) (currentNumber demo_game)"
      by (simp add: canPlayUNOCard_def red_draw2_def mk_card_def demo_game_def)
    have t: "discardPile demo_game @ [red_draw2] = [yellow_3, red_7, red_draw2]"
      by (simp add: demo_game_def)
    from C6_action_checks [where u = alice and ugames = demo_games and gid = "''g1''"
        and ug = demo_game and cp = ?a and i = 0 and cc = None and c = red_draw2,
        THEN conjunct2, THEN conjunct2, THEN conjunct1] dm dc dk roles n h p
    have "\<exists>g'. accepted ''uno-card-played'' ''g1'' g' (uno_play_card demo_games alice ''g1'' 0 None)
        \<and> discardPile g' = discardPile demo_game @ [red_draw2]"
      by auto
    with t show ?thesis by simp
  qed
  have u4: "\<exists>g'. accepted ''uno-card-drawn'' ''g1'' g' (uno_draw_card rnd0 demo_games alice ''g1'')
      \<and> discardPile g' = [red_7] \<and> deck g' = []"
  proof -
    have n: "name ?a = username alice" by (simp add: seat_def alice_def)
    have e: "deck demo_game = []" "1 < length (discardPile demo_game)"
      "last (discardPile demo_game) = red_7" "length (discardPile demo_game) = 2"
      by (simp_all add: demo_game_def)
    from C6_action_checks [where u = alice and ugames = demo_games and gid = "''g1''"
        and ug = demo_game and cp = ?a and rnd = rnd0,
        THEN conjunct2, THEN conjunct2, THEN conjunct2, THEN conjunct1] dm dc roles n e(1,2)
    obtain g' where "accepted ''uno-card-drawn'' ''g1'' g' (uno_draw_card rnd0 demo_games alice ''g1'')"
      "discardPile g' = [last (discardPile demo_game)]"
      "length (deck g') + 2 = length (discardPile demo_game)"
      by auto
    with e show ?thesis by auto
  qed
  have u3: "uno_draw_card rnd0 fresh_uno alice ''uno_1000''
       = (Success, fresh_uno,
          [\<lparr>room = ''gaming-room'', event = ''uno-card-drawn'', gameId = ''uno_1000'',
            game = fresh_uno_game\<rparr>])"
  proof -
    have m: "map_of fresh_uno ''uno_1000'' = Some fresh_uno_game" by (simp add: fresh_uno_eq)
    have c: "js_index (players fresh_uno_game) (u_currentPlayerIndex fresh_uno_game)
               = Some (seat ''alice'')"
      by (simp add: fresh_uno_game_def js_index_def)
    have n: "name (seat ''alice'') = username alice" by (simp add: seat_def alice_def)
    have e: "deck fresh_uno_game = []" "length (discardPile fresh_uno_game) \<le> 1"
      by (simp_all add: fresh_uno_game_def)
    from C6_action_checks [where u = alice and ugames = fresh_uno and gid = "''uno_1000''"
        and ug = fresh_uno_game and cp = "seat ''alice''" and rnd = rnd0,
        THEN conjunct2, THEN conjunct2, THEN conjunct2, THEN conjunct1] m c n e roles
    show ?thesis by auto
  qed
  have l1: "refused (Failure 400 ''Not your turn'') ludo_pair (ludo_roll 5 ludo_pair bob ''ludo_1000'')"
  proof -
    let ?lg = "\<lparr>game_id = ''ludo_1000'', players = [human ''alice'', human ''bob''],
                status = Playing, winner = None, createdAt = 1000, l_maxPlayers = Some 2,
                l_currentPlayerIndex = 0, diceRolled = False, lastDiceRoll = None,
                l_board = Some initializeLudoBoard, gameMode = Some ''multi''\<rparr>"
    have m: "map_of ludo_pair ''ludo_1000'' = Some ?lg"
      by (simp add: ludo_pair_def ludo_start_def ludo_join_def ludo_create_def toString_1000
            alice_def bob_def failures Let_def ludo_full_def human_def initializeLudoBoard_def)
    have c: "js_index (players ?lg) (l_currentPlayerIndex ?lg) = Some (human ''alice'')"
      by (simp add: js_index_def)
    have n: "name (human ''alice'') \<noteq> username bob" by (simp add: human_def bob_def)
    from C6_action_checks [where u = bob and lgames = ludo_pair and gid = "''ludo_1000''"
        and lg = ?lg and lp = "human ''alice''" and die = 5,
        THEN conjunct2, THEN conjunct2, THEN conjunct2, THEN conjunct2] m c n roles
    show ?thesis by auto
  qed
  have l2: "fst (ludo_roll 5 ludo_pair alice ''ludo_1000'') = Success
      \<and> length (snd (snd (ludo_roll 5 ludo_pair alice ''ludo_1000''))) = 1"
  proof -
    let ?lg = "\<lparr>game_id = ''ludo_1000'', players = [human ''alice'', human ''bob''],
                status = Playing, winner = None, createdAt = 1000, l_maxPlayers = Some 2,
                l_currentPlayerIndex = 0, diceRolled = False, lastDiceRoll = None,
                l_board = Some initializeLudoBoard, gameMode = Some ''multi''\<rparr>"
    have m: "map_of ludo_pair ''ludo_1000'' = Some ?lg"
      by (simp add: ludo_pair_def ludo_start_def ludo_join_def ludo_create_def toString_1000
            alice_def bob_def failures Let_def ludo_full_def human_def initializeLudoBoard_def)
    have c: "js_index (players ?lg) (l_currentPlayerIndex ?lg) = Some (human ''alice'')"
      by (simp add: js_index_def)
    have n: "name (human ''alice'') = username alice" "\<not> diceRolled ?lg"
      by (simp_all add: human_def alice_def)
    from C6_action_checks [where u = alice and lgames = ludo_pair and gid = "''ludo_1000''"
        and lg = ?lg and lp = "human ''alice''" and die = 5,
        THEN conjunct2, THEN conjunct2, THEN conjunct2, THEN conjunct2] m c n roles
    have "accepted ''ludo-dice-rolled'' ''ludo_1000''
        (?lg\<lparr>lastDiceRoll := Some (int (5 mod 6 + 1)), diceRolled := True\<rparr>)
        (ludo_roll 5 ludo_pair alice ''ludo_1000'')"
      by auto
    then show ?thesis by (simp add: accepted_def)
  qed
  from c1 c2 c3 c4 t1 t2 t3 u1 u2 u4 u3 l1 l2 show ?thesis by blast
qed

text \<open>
  A draw that cannot take place is not refused. Alice creates a card match and asks for a
  card: deck and discard pile are empty, no card is drawn, the container is as before, and
  the answer is a success with one event to the gaming room.
\<close>

theorem C6_counterexample:
  "uno_draw_card rnd0 fresh_uno alice ''uno_1000''
     = (Success, fresh_uno, [emit_gaming ''uno-card-drawn'' ''uno_1000'' fresh_uno_game])
   \<and> map_of fresh_uno ''uno_1000'' = Some fresh_uno_game
   \<and> deck fresh_uno_game = [] \<and> discardPile fresh_uno_game = []"
  by (simp add: fresh_uno_eq uno_draw_card_def failures Let_def js_index_def reshuffleUNODeck_def
        alice_def)
     (simp add: fresh_uno_game_def seat_def)

section \<open>Properties of the status field\<close>

lemma status_writes_same: "status_writes S games games"
  by (simp add: status_writes_def)

lemma status_writes_update:
  "map_of games gid = Some g \<Longrightarrow> status g' = status g \<or> status g' \<in> S \<Longrightarrow>
   status_writes S games (AList.update gid g' games)"
  by (auto simp: status_writes_def update_conv')

lemma status_writes_delete: "status_writes S games (AList.delete k games)"
  by (auto simp: status_writes_def delete_conv' split: if_splits)

lemma map_of_map_entries:
  "map_of (map (\<lambda>(k, g). (k, f g)) games) k = map_option f (map_of games k)"
  by (induction games) auto

lemma status_writes_abandon:
  "status_writes {Abandoned} games (fst (abandon c test games))"
  unfolding status_writes_def abandon_def fst_conv
  by (auto simp: map_of_map_entries)

lemma status_writes_sweep:
  "distinct (map fst games) \<Longrightarrow> status_writes {} games (sweep_games now games)"
  by (auto simp: status_writes_def sweep_games_lookup split: option.splits if_splits)

lemma chess_join_status: "status_writes {Playing} games (fst (snd (chess_join games u gid)))"
  by (auto simp: chess_join_def failures Let_def split: option.splits
        intro!: status_writes_update status_writes_same)

lemma chess_move_status:
  "status_writes {} games (fst (snd (chess_move games u gid from_sq to_sq now)))"
  by (auto simp: chess_move_def failures Let_def isCheckmate_def isStalemate_def
        split: option.splits sum.splits intro!: status_writes_update status_writes_same)

lemma ttt_join_status: "status_writes {Playing} games (fst (snd (ttt_join games u gid)))"
  by (auto simp: ttt_join_def failures Let_def split: option.splits
        intro!: status_writes_update status_writes_same)

lemma ttt_move_status: "status_writes {Finished, Draw} games (fst (snd (ttt_move games u gid pos)))"
  by (auto simp: ttt_move_def failures Let_def split: option.splits
        intro!: status_writes_update status_writes_same)

lemma ludo_join_status: "status_writes {} games (fst (snd (ludo_join games u gid)))"
  by (auto simp: ludo_join_def failures Let_def split: option.splits
        intro!: status_writes_update status_writes_same)

lemma ludo_start_status:
  "status_writes {Playing} games (fst (snd (ludo_start games u gid pc ac mode diff)))"
  by (auto simp: ludo_start_def failures Let_def split: option.splits
        intro!: status_writes_update status_writes_same)

lemma ludo_roll_status: "status_writes {} games (fst (snd (ludo_roll die games u gid)))"
  by (auto simp: ludo_roll_def failures Let_def split: option.splits
        intro!: status_writes_update status_writes_same)

lemma ludo_roll_timeout_status: "ludo_roll_timeout cp d g = Inr g' \<Longrightarrow> status g' = status g"
  by (auto simp: ludo_roll_timeout_def split: if_splits option.splits)

lemma ludo_move_status:
  "status_writes {Finished} games (fst (snd (ludo_move games su gid pieceIndex diceRoll)))"
  by (auto simp: ludo_move_def Let_def split: option.splits
        intro!: status_writes_update status_writes_same)

lemma ludo_move_needs_playing:
  "map_of games gid = Some g \<Longrightarrow> status g \<noteq> Playing \<Longrightarrow>
   ludo_move games su gid pieceIndex diceRoll = (None, games, [])"
  by (simp add: ludo_move_def)

lemma initializeUNOGame_status:
  "initializeUNOGame rnd g = Returned g' \<or> initializeUNOGame rnd g = Threw e g' \<Longrightarrow>
   status g' = status g"
  by (auto simp: initializeUNOGame_def Let_def split: prod.splits option.splits)

lemma effect_status:
  "processUNOCardEffect g c = Returned g' \<or> processUNOCardEffect g c = Threw e g' \<Longrightarrow>
   status g' = status g"
  unfolding processUNOCardEffect_def Let_def
  by (auto split: if_splits outcome.splits dest: forced_draw_fields [OF disjI1] forced_draw_fields [OF disjI2])

lemma uno_join_status: "status_writes {Playing} games (fst (snd (uno_join rnd games u gid)))"
proof (cases "map_of games gid")
  case None
  then show ?thesis by (simp add: uno_join_def failures status_writes_same)
next
  case (Some g)
  let ?g1 = "g\<lparr>players := players g @ [\<lparr>name = username u, socketId = None, hand = [], saidUNO = False\<rparr>],
                status := Playing\<rparr>"
  show ?thesis
  proof (cases "initializeUNOGame rnd ?g1")
    case (Returned g2)
    with initializeUNOGame_status [of rnd ?g1 g2] have "status g2 = Playing" by simp
    with Some Returned show ?thesis
      by (auto simp: uno_join_def failures Let_def intro!: status_writes_update status_writes_same)
  next
    case (Threw e g2)
    with initializeUNOGame_status [of rnd ?g1 g2 e] have "status g2 = Playing" by simp
    with Some Threw show ?thesis
      by (auto simp: uno_join_def failures Let_def intro!: status_writes_update status_writes_same)
  qed
qed

lemma uno_play_status: "status_writes {Finished} games (fst (snd (uno_play_card games u gid i cc)))"
  by (auto simp: uno_play_card_def failures Let_def
        split: option.splits outcome.splits
        dest!: effect_status [OF disjI1] effect_status [OF disjI2]
        intro!: status_writes_update status_writes_same)

lemma uno_draw_status: "status_writes {} games (fst (snd (uno_draw_card rnd games u gid)))"
  by (auto simp: uno_draw_card_def failures Let_def split: option.splits
        intro!: status_writes_update status_writes_same)

lemma create_status:
  "created games (snd (chess_create games u now))"
  "created lgames (snd (ludo_create lgames u now))"
  "created tgames (snd (ttt_create tgames u now))"
  "created ugames (snd (uno_create ugames u now))"
  by (auto simp: created_def chess_create_def ludo_create_def ttt_create_def uno_create_def
        failures Let_def update_conv' split: if_splits)

lemma on_disconnect_status:
  "status_writes {Abandoned} (chessGames w) (chessGames (on_disconnect w s))"
  "status_writes {Abandoned} (ludoGames w) (ludoGames (on_disconnect w s))"
  "status_writes {Abandoned} (ticTacToeGames w) (ticTacToeGames (on_disconnect w s))"
  "status_writes {Abandoned} (unoGames w) (unoGames (on_disconnect w s))"
  using status_writes_abandon [of "chessGames w" ChessGames "chess_has s"]
        status_writes_abandon [of "ludoGames w" LudoGames "has_socket s"]
        status_writes_abandon [of "ticTacToeGames w" TicTacToeGames "has_socket s"]
        status_writes_abandon [of "unoGames w" UnoGames "has_socket s"]
  by (auto simp: on_disconnect_def Let_def split_beta status_writes_same)

lemma timer_fire_status:
  "status_writes {} (chessGames w) (chessGames (timer_fire t w))"
  "status_writes {} (ludoGames w) (ludoGames (timer_fire t w))"
  "status_writes {} (ticTacToeGames w) (ticTacToeGames (timer_fire t w))"
  "status_writes {} (unoGames w) (unoGames (timer_fire t w))"
  by (cases "target t"; simp add: timer_fire_def status_writes_same status_writes_delete)+

lemma uno_join_playing:
  assumes "role u = ''gamer''" and "map_of ugames gid = Some ug"
    and "length (players ug) < u_maxPlayers ug"
    and "\<forall>p \<in> set (players ug). name p \<noteq> username u" and "players ug \<noteq> []"
  shows "map_option status (map_of (fst (snd (uno_join rnd ugames u gid))) gid) = Some Playing"
proof -
  let ?g1 = "ug\<lparr>players := players ug @ [\<lparr>name = username u, socketId = None, hand = [], saidUNO = False\<rparr>],
                 status := Playing\<rparr>"
  from assms(5) have two: "2 \<le> length (players ug) + 1" by (cases "players ug") auto
  show ?thesis
  proof (cases "initializeUNOGame rnd ?g1")
    case (Returned g2)
    with initializeUNOGame_status [of rnd ?g1 g2] have "status g2 = Playing" by simp
    with assms two Returned show ?thesis
      by (simp add: uno_join_def failures Let_def update_conv')
  next
    case (Threw e g2)
    with initializeUNOGame_status [of rnd ?g1 g2 e] have "status g2 = Playing" by simp
    with assms two Threw show ?thesis
      by (simp add: uno_join_def failures Let_def update_conv')
  qed
qed

text \<open>
  C3 (as amended). A create stores a new match in \<open>waiting\<close> under its id (what that id
  held before is replaced), and no operation writes \<open>waiting\<close> into an existing match:
  no match returns to waiting. The other edges of the graph are not enforced, because no
  endpoint reads the status before it writes it. The chess, grid and card join write
  \<open>playing\<close> whenever the match has room and the caller is not yet in it, and the race
  start writes \<open>playing\<close> on every existing match, whatever the status was. The grid move
  writes only \<open>finished\<close> or \<open>draw\<close>, the card play and the race move only
  \<open>finished\<close>; the chess move, the race join, the race roll with the turn change it
  schedules and the card draw leave the status alone; a disconnect writes no status other
  than \<open>abandoned\<close>; deletion tasks and the sweep change no status of a match they
  leave in place.
\<close>

theorem C3_status_transitions:
  "((role u = ''gamer'' \<longrightarrow>
       map_option status (map_of (snd (chess_create cgames u now)) (toString now)) = Some Waiting)
    \<and> (role u = ''gamer'' \<longrightarrow>
       map_option status (map_of (snd (ludo_create lgames u now)) (''ludo_'' @ toString now))
         = Some Waiting)
    \<and> (role u = ''gamer'' \<longrightarrow>
       map_option status (map_of (snd (ttt_create tgames u now)) (''ttt_'' @ toString now))
         = Some Waiting)
    \<and> (role u = ''gamer'' \<longrightarrow>
       map_option status (map_of (snd (uno_create ugames u now)) (''uno_'' @ toString now))
         = Some Waiting)
    \<and> (role u = ''gamer'' \<longrightarrow> map_of cgames gid = Some cg \<longrightarrow> length (players cg) < 2 \<longrightarrow>
       username u \<notin> set (players cg) \<longrightarrow>
       fst (chess_join cgames u gid) = Success
       \<and> map_option status (map_of (fst (snd (chess_join cgames u gid))) gid) = Some Playing)
    \<and> (role u = ''gamer'' \<longrightarrow> map_of tgames gid = Some tg \<longrightarrow> length (players tg) < 2 \<longrightarrow>
       (\<forall>p \<in> set (players tg). name p \<noteq> username u) \<longrightarrow>
       fst (ttt_join tgames u gid) = Success
       \<and> map_option status (map_of (fst (snd (ttt_join tgames u gid))) gid) = Some Playing)
    \<and> (role u = ''gamer'' \<longrightarrow> map_of ugames gid = Some ug \<longrightarrow>
       length (players ug) < u_maxPlayers ug \<longrightarrow>
       (\<forall>p \<in> set (players ug). name p \<noteq> username u) \<longrightarrow> players ug \<noteq> [] \<longrightarrow>
       map_option status (map_of (fst (snd (uno_join rnd ugames u gid))) gid) = Some Playing)
    \<and> (role u = ''gamer'' \<longrightarrow> map_of lgames gid = Some lg \<longrightarrow>
       fst (ludo_start lgames u gid pc ac mode diff) = Success
       \<and> map_option status (map_of (fst (snd (ludo_start lgames u gid pc ac mode diff))) gid)
           = Some Playing)
    \<and> (ludo_roll_timeout lp dr lg = Inr lg' \<longrightarrow> status lg' = status lg))
   \<and> (created cgames (snd (chess_create cgames u now))
    \<and> created lgames (snd (ludo_create lgames u now))
    \<and> created tgames (snd (ttt_create tgames u now))
    \<and> created ugames (snd (uno_create ugames u now))
    \<and> status_writes {Playing} cgames (fst (snd (chess_join cgames u gid)))
    \<and> status_writes {Playing} tgames (fst (snd (ttt_join tgames u gid)))
    \<and> status_writes {Playing} ugames (fst (snd (uno_join rnd ugames u gid)))
    \<and> status_writes {} lgames (fst (snd (ludo_join lgames u gid)))
    \<and> status_writes {Playing} lgames (fst (snd (ludo_start lgames u gid pc ac mode diff)))
    \<and> status_writes {} cgames (fst (snd (chess_move cgames u gid from_sq to_sq now)))
    \<and> status_writes {Finished, Draw} tgames (fst (snd (ttt_move tgames u gid pos)))
    \<and> status_writes {} lgames (fst (snd (ludo_roll die lgames u gid)))
    \<and> status_writes {Finished} lgames (fst (snd (ludo_move lgames su gid pieceIndex diceRoll)))
    \<and> status_writes {Finished} ugames (fst (snd (uno_play_card ugames u gid i cc)))
    \<and> status_writes {} ugames (fst (snd (uno_draw_card rnd ugames u gid)))
    \<and> status_writes {Abandoned} (chessGames w) (chessGames (on_disconnect w s))
    \<and> status_writes {Abandoned} (ludoGames w) (ludoGames (on_disconnect w s))
    \<and> status_writes {Abandoned} (ticTacToeGames w) (ticTacToeGames (on_disconnect w s))
    \<and> status_writes {Abandoned} (unoGames w) (unoGames (on_disconnect w s))
    \<and> status_writes {} (chessGames w) (chessGames (timer_fire t w))
    \<and> status_writes {} (ludoGames w) (ludoGames (timer_fire t w))
    \<and> status_writes {} (ticTacToeGames w) (ticTacToeGames (timer_fire t w))
    \<and> status_writes {} (unoGames w) (unoGames (timer_fire t w))
    \<and> (distinct (map fst (chessGames w)) \<longrightarrow>
         status_writes {} (chessGames w) (chessGames (sweep t' w)))
    \<and> (distinct (map fst (ludoGames w)) \<longrightarrow>
         status_writes {} (ludoGames w) (ludoGames (sweep t' w)))
    \<and> (distinct (map fst (ticTacToeGames w)) \<longrightarrow>
         status_writes {} (ticTacToeGames w) (ticTacToeGames (sweep t' w)))
    \<and> (distinct (map fst (unoGames w)) \<longrightarrow>
         status_writes {} (unoGames w) (unoGames (sweep t' w))))"
  apply (rule conjI)
   apply (intro conjI impI)
  subgoal by (simp add: chess_create_def Let_def update_conv')
  subgoal by (simp add: ludo_create_def Let_def update_conv')
  subgoal by (simp add: ttt_create_def Let_def update_conv')
  subgoal by (simp add: uno_create_def Let_def update_conv')
  subgoal by (simp add: chess_join_def Let_def)
  subgoal by (simp add: chess_join_def Let_def update_conv')
  subgoal by (simp add: ttt_join_def Let_def)
  subgoal by (simp add: ttt_join_def Let_def update_conv')
  subgoal by (rule uno_join_playing)
  subgoal by (simp add: ludo_start_def Let_def)
  subgoal by (simp add: ludo_start_def Let_def update_conv')
  subgoal by (rule ludo_roll_timeout_status)
  subgoal
    by (simp add: create_status chess_join_status ttt_join_status uno_join_status ludo_join_status
      ludo_start_status chess_move_status ttt_move_status ludo_roll_status ludo_move_status
      uno_play_status uno_draw_status on_disconnect_status timer_fire_status
      status_writes_sweep sweep_def)
  done

theorem C3_witness:
  "map_option status (map_of (snd (chess_create [] alice 1000)) ''1000'') = Some Waiting
   \<and> fst (chess_join (snd (chess_create [] alice 1000)) bob ''1000'') = Success
   \<and> map_option status (map_of chess_pair ''1000'') = Some Playing
   \<and> fst (ttt_join (snd (ttt_create [] alice 1000)) bob ''ttt_1000'') = Success
   \<and> map_option status (map_of ttt_pair ''ttt_1000'') = Some Playing
   \<and> status won_ludo = Finished
   \<and> map_option status
        (map_of (fst (snd (ludo_start [(''ludo_1000'', won_ludo)] dave ''ludo_1000'' (Some 4) True
                        None None))) ''ludo_1000'') = Some Playing
   \<and> status demo_game = Playing
   \<and> map_option status (map_of (fst (snd (uno_join rnd0 demo_games dave ''g1''))) ''g1'')
       = Some Playing
   \<and> status_writes {Playing} (snd (chess_create [] alice 1000)) chess_pair
   \<and> created [] (snd (ludo_create [] alice 1000))
   \<and> distinct (map fst (unoGames demo_world))
   \<and> status_writes {} (unoGames demo_world) (unoGames (sweep 5000 demo_world))
   \<and> status_writes {Abandoned} (unoGames demo_world) (unoGames (on_disconnect demo_world alice_socket))"
proof -
  have roles: "role alice = ''gamer''" "role bob = ''gamer''" "role dave = ''gamer''"
    by (simp_all add: alice_def bob_def dave_def)
  let ?c0 = "\<lparr>game_id = ''1000'', players = [''alice''], status = Waiting, winner = None,
              createdAt = 1000, c_board = initializeChessBoard, turn = ''white'', moves = []\<rparr>"
  have cm: "map_of (snd (chess_create [] alice 1000)) ''1000'' = Some ?c0"
    by (simp add: chess_create_def alice_def toString_1000 Let_def)
  from C3_status_transitions [where u = alice and cgames = "[]" and now = 1000,
      THEN conjunct1, THEN conjunct1] roles
  have a: "map_option status (map_of (snd (chess_create [] alice 1000)) ''1000'') = Some Waiting"
    by (simp add: toString_1000)
  have "length (players ?c0) < 2" "username bob \<notin> set (players ?c0)"
    by (simp_all add: bob_def)
  with C3_status_transitions [where u = bob and cgames = "snd (chess_create [] alice 1000)"
      and gid = "''1000''" and cg = ?c0,
      THEN conjunct1, THEN conjunct2, THEN conjunct2, THEN conjunct2, THEN conjunct2,
      THEN conjunct1] roles cm
  have b: "fst (chess_join (snd (chess_create [] alice 1000)) bob ''1000'') = Success
      \<and> map_option status (map_of chess_pair ''1000'') = Some Playing"
    by (simp add: chess_pair_def)
  let ?t0 = "\<lparr>game_id = ''ttt_1000'',
              players = [\<lparr>name = ''alice'', socketId = None, symbol = ''X''\<rparr>],
              status = Waiting, winner = None, createdAt = 1000,
              t_board = replicate 9 [], currentPlayer = ''X''\<rparr>"
  have tm: "map_of (snd (ttt_create [] alice 1000)) ''ttt_1000'' = Some ?t0"
    by (simp add: ttt_create_def alice_def toString_1000 Let_def)
  have "length (players ?t0) < 2" "\<forall>p \<in> set (players ?t0). name p \<noteq> username bob"
    by (simp_all add: bob_def)
  with C3_status_transitions [where u = bob and tgames = "snd (ttt_create [] alice 1000)"
      and gid = "''ttt_1000''" and tg = ?t0,
      THEN conjunct1, THEN conjunct2, THEN conjunct2, THEN conjunct2, THEN conjunct2,
      THEN conjunct2, THEN conjunct1] roles tm
  have b2: "fst (ttt_join (snd (ttt_create [] alice 1000)) bob ''ttt_1000'') = Success
      \<and> map_option status (map_of ttt_pair ''ttt_1000'') = Some Playing"
    by (simp add: ttt_pair_def)
  have f: "status won_ludo = Finished" by (simp add: won_ludo_def)
  have "map_of [(''ludo_1000'', won_ludo)] ''ludo_1000'' = Some won_ludo" by simp
  with C3_status_transitions [where u = dave and lgames = "[(''ludo_1000'', won_ludo)]"
      and gid = "''ludo_1000''" and lg = won_ludo and pc = "Some 4" and ac = True and mode = None
      and diff = None,
      THEN conjunct1, THEN conjunct2, THEN conjunct2, THEN conjunct2, THEN conjunct2,
      THEN conjunct2, THEN conjunct2, THEN conjunct2, THEN conjunct1] roles
  have c: "map_option status
        (map_of (fst (snd (ludo_start [(''ludo_1000'', won_ludo)] dave ''ludo_1000'' (Some 4) True
                        None None))) ''ludo_1000'') = Some Playing"
    by simp
  have p: "status demo_game = Playing" by (simp add: demo_game_def)
  have "map_of demo_games ''g1'' = Some demo_game" "length (players demo_game) < u_maxPlayers demo_game"
    "\<forall>p \<in> set (players demo_game). name p \<noteq> username dave" "players demo_game \<noteq> []"
    by (simp_all add: demo_games_def demo_game_def seat_def dave_def)
  with C3_status_transitions [where u = dave and ugames = demo_games and gid = "''g1''"
      and ug = demo_game and rnd = rnd0,
      THEN conjunct1, THEN conjunct2, THEN conjunct2, THEN conjunct2, THEN conjunct2,
      THEN conjunct2, THEN conjunct2, THEN conjunct1] roles
  have d: "map_option status (map_of (fst (snd (uno_join rnd0 demo_games dave ''g1''))) ''g1'')
      = Some Playing"
    by simp
  from C3_status_transitions [where cgames = "snd (chess_create [] alice 1000)" and u = bob
      and gid = "''1000''", THEN conjunct2]
  have j: "status_writes {Playing} (snd (chess_create [] alice 1000)) chess_pair"
    by (simp add: chess_pair_def)
  from C3_status_transitions [where lgames = "[]" and u = alice and now = 1000, THEN conjunct2]
  have k: "created [] (snd (ludo_create [] alice 1000))" by simp
  have e: "distinct (map fst (unoGames demo_world))"
    by (simp add: demo_world_def demo_games_def world0_def)
  from C3_status_transitions [where w = demo_world and s = alice_socket and t' = 5000,
      THEN conjunct2] e
  have s: "status_writes {} (unoGames demo_world) (unoGames (sweep 5000 demo_world))"
    and x: "status_writes {Abandoned} (unoGames demo_world)
              (unoGames (on_disconnect demo_world alice_socket))"
    by simp_all
  from a b b2 f c p d j k e s x show ?thesis by blast
qed

text \<open>A finished race match goes back to \<open>playing\<close> when anyone starts it again.\<close>

theorem C3_counterexample:
  "map_option status (map_of [(''ludo_1000'', won_ludo)] ''ludo_1000'') = Some Finished
   \<and> map_option status
        (map_of (fst (snd (ludo_start [(''ludo_1000'', won_ludo)] bob ''ludo_1000'' (Some 2) False
                        None None))) ''ludo_1000'') = Some Playing"
  by (simp add: ludo_start_def won_ludo_def bob_def failures Let_def)

end
